theory Spec2Isabelle
  imports Complex_Main "HOL-Library.Word" "HOL-Library.Sublist"
begin

section \<open>JavaScript values used by the plugin\<close>

text \<open>
  A JavaScript string is a sequence of UTF-16 code units; \<open>length\<close>, \<open>slice\<close>,
  \<open>trim\<close> and the regular expressions of \<^verbatim>\<open>src/index.ts\<close> all work on code units.
  A \<^verbatim>\<open>Buffer\<close> is a sequence of bytes.
\<close>

type_synonym code_unit = "16 word"
type_synonym jsstring = "code_unit list"
type_synonym buffer = "8 word list"

definition js :: "string \<Rightarrow> jsstring" where
  "js s = map (\<lambda>c. of_nat (of_char c)) s"

text \<open>
  The characters that \<^verbatim>\<open>String.prototype.trim\<close> removes and that \<^verbatim>\<open>\s\<close> matches
  (ECMAScript WhiteSpace and LineTerminator): TAB, LF, VT, FF, CR, SPACE, NBSP, U+1680,
  U+2000 to U+200A, U+2028, U+2029, U+202F, U+205F, U+3000 and U+FEFF.
\<close>

definition is_ws :: "code_unit \<Rightarrow> bool" where
  "is_ws c = (c = 0x0009 \<or> c = 0x000A \<or> c = 0x000B \<or> c = 0x000C \<or> c = 0x000D
     \<or> c = 0x0020 \<or> c = 0x00A0 \<or> c = 0x1680 \<or> (0x2000 \<le> c \<and> c \<le> 0x200A)
     \<or> c = 0x2028 \<or> c = 0x2029 \<or> c = 0x202F \<or> c = 0x205F \<or> c = 0x3000
     \<or> c = 0xFEFF)"

definition trim :: "jsstring \<Rightarrow> jsstring" where
  "trim s = rev (dropWhile is_ws (rev (dropWhile is_ws s)))"

text \<open>\<^verbatim>\<open>xs.join(" ")\<close> on an array of strings.\<close>

fun join_space :: "jsstring list \<Rightarrow> jsstring" where
  "join_space [] = []"
| "join_space [x] = x"
| "join_space (x # y # ys) = x @ [0x0020] @ join_space (y # ys)"

text \<open>
  A JavaScript number is an IEEE double: a finite value (a real number here), an
  infinity or NaN. Every comparison with NaN is false.
\<close>

datatype js_number = Num real | PosInfinity | NegInfinity | NaN

fun js_lt :: "js_number \<Rightarrow> js_number \<Rightarrow> bool" where
  "js_lt (Num a) (Num b) = (a < b)"
| "js_lt (Num a) PosInfinity = True"
| "js_lt NegInfinity (Num b) = True"
| "js_lt NegInfinity PosInfinity = True"
| "js_lt _ _ = False"

definition js_gt :: "js_number \<Rightarrow> js_number \<Rightarrow> bool" where
  "js_gt a b = js_lt b a"

text \<open>The decimal digits of a non-negative integer, as a template literal prints it.\<close>

fun show_nat :: "nat \<Rightarrow> jsstring" where
  "show_nat n =
     (if n < 10 then [of_nat (48 + n)]
      else show_nat (n div 10) @ [of_nat (48 + n mod 10)])"

declare show_nat.simps [simp del]

section \<open>Errors\<close>

text \<open>
  Every \<^verbatim>\<open>throw new Error(...)\<close> and every rejection of \<^verbatim>\<open>src/index.ts\<close>, one
  constructor per message template, carrying the interpolated values:
  \<^item> \<open>ApiKeyRequired\<close>: "DEEPGRAM_API_KEY is required";
  \<^item> \<open>InvalidModel m\<close>: "Invalid model: m. Valid: ...";
  \<^item> \<open>InvalidTimeout t\<close>: "Invalid timeout: t ms (must be 1000-300000)";
  \<^item> \<open>ConnectionFailed m\<close>: "Deepgram WebSocket connection failed: m";
  \<^item> \<open>WebSocketError m\<close>: "Deepgram WebSocket error: m";
  \<^item> \<open>NotConnected\<close>: "Deepgram session not connected";
  \<^item> \<open>SessionEnded\<close>: "Session ended, cannot send more audio";
  \<^item> \<open>TranscriptTimeout\<close>: "Transcript timeout";
  \<^item> \<open>TranscriptionFailed msg\<close>: the whole message of line 396;
  \<^item> \<open>MissingTranscript\<close>: "Deepgram response missing transcript";
  \<^item> \<open>FetchFailed\<close>: whatever \<^verbatim>\<open>fetch\<close> rejects with (network failure, abort);
  \<^item> \<open>JsonSyntaxError\<close>: what \<^verbatim>\<open>res.json()\<close> rejects with on a malformed body.
\<close>

datatype js_error =
    ApiKeyRequired
  | InvalidModel jsstring
  | InvalidTimeout js_number
  | ConnectionFailed jsstring
  | WebSocketError jsstring
  | NotConnected
  | SessionEnded
  | TranscriptTimeout
  | TranscriptionFailed jsstring
  | MissingTranscript
  | FetchFailed
  | JsonSyntaxError

section \<open>Deepgram API types\<close>

record alternative =
  transcript :: "jsstring option"
  confidence :: "real option"

record channel =
  alternatives :: "alternative list option"

record dg_results =
  channels :: "channel list option"

record transcript_response =
  results :: "dg_results option"

datatype message_type = Results | Metadata | SpeechStarted | UtteranceEnd

record stream_message =
  msg_type :: message_type
  msg_channel :: "channel option"
  is_final :: "bool option"
  speech_final :: "bool option"

text \<open>
  The fields of \<^verbatim>\<open>STTOptions\<close> (declared in \<^verbatim>\<open>wopr/voice\<close>) that the plugin reads.
  An absent property is \<open>None\<close>.
\<close>

record stt_options =
  opt_language :: "jsstring option"
  opt_vadEnabled :: "bool option"
  opt_wordTimestamps :: "bool option"

record transcript_chunk =
  chunk_text :: jsstring
  isFinal :: bool
  chunk_confidence :: "real option"
  timestamp :: nat

section \<open>URLs\<close>

text \<open>
  A \<^verbatim>\<open>URL\<close> object: the string it was built from and its query parameters in order.
  \<^verbatim>\<open>searchParams.set\<close> overwrites the first pair with the key and deletes the others,
  or appends a new pair.
\<close>

record url =
  url_base :: jsstring
  searchParams :: "(jsstring \<times> jsstring) list"

fun params_set :: "jsstring \<Rightarrow> jsstring \<Rightarrow> (jsstring \<times> jsstring) list \<Rightarrow> (jsstring \<times> jsstring) list" where
  "params_set k v [] = [(k, v)]"
| "params_set k v ((k', v') # ps) =
     (if k' = k then (k, v) # filter (\<lambda>p. fst p \<noteq> k) ps
      else (k', v') # params_set k v ps)"

definition url_set :: "jsstring \<Rightarrow> jsstring \<Rightarrow> url \<Rightarrow> url" where
  "url_set k v u = u\<lparr>searchParams := params_set k v (searchParams u)\<rparr>"

definition new_URL :: "jsstring \<Rightarrow> url" where
  "new_URL s = \<lparr>url_base = s, searchParams = []\<rparr>"

section \<open>The streaming session\<close>

datatype ready_state = CONNECTING | OPEN | CLOSING | CLOSED

datatype frame = Binary buffer | TextFrame jsstring

text \<open>
  What the session does to the outside world, in order: opening the socket, frames sent,
  closing the socket, chunks delivered to the partial callback, \<^verbatim>\<open>console.error\<close>.
\<close>

datatype effect =
    WsConnect url jsstring
  | WsSend frame
  | WsClose
  | Callback nat transcript_chunk
  | ConsoleError

datatype promise_state = Pending | Fulfilled jsstring | Rejected js_error

datatype timer_state = Armed | Cleared | Fired

text \<open>
  One call of \<^verbatim>\<open>waitForTranscript\<close>: the promise it returns, and the timer it arms
  with its delay.
\<close>

record wait =
  promise :: promise_state
  delay :: js_number
  timer :: timer_state

text \<open>
  The fields of \<^verbatim>\<open>DeepgramSession\<close>. \<open>ws\<close> is \<open>None\<close> for \<^verbatim>\<open>null\<close>, else the
  socket's \<^verbatim>\<open>readyState\<close>. \<open>resolveTranscript = Some p\<close> is the wrapper stored by the
  \<open>p\<close>-th call of \<^verbatim>\<open>waitForTranscript\<close> (clear that call's timer, then resolve that
  call's promise); \<open>rejectTranscript = Some p\<close> is that promise's reject function.
  A callback is named by a number.
\<close>

record session =
  apiKey :: jsstring
  model :: jsstring
  options :: stt_options
  ws :: "ready_state option"
  partialCallback :: "nat option"
  finalTranscript :: jsstring
  ended :: bool
  resolveTranscript :: "nat option"
  rejectTranscript :: "nat option"
  waits :: "wait list"
  effects :: "effect list"

definition new_session :: "jsstring \<Rightarrow> jsstring \<Rightarrow> stt_options \<Rightarrow> session" where
  "new_session k m opts =
     \<lparr>apiKey = k, model = m, options = opts, ws = None, partialCallback = None,
      finalTranscript = [], ended = False, resolveTranscript = None,
      rejectTranscript = None, waits = [], effects = []\<rparr>"

text \<open>Settling a promise that is already settled does nothing.\<close>

definition resolve_promise :: "nat \<Rightarrow> jsstring \<Rightarrow> wait list \<Rightarrow> wait list" where
  "resolve_promise p v wl =
     (if p < length wl \<and> promise (wl ! p) = Pending
      then wl[p := (wl ! p)\<lparr>promise := Fulfilled v\<rparr>] else wl)"

definition reject_promise :: "nat \<Rightarrow> js_error \<Rightarrow> wait list \<Rightarrow> wait list" where
  "reject_promise p e wl =
     (if p < length wl \<and> promise (wl ! p) = Pending
      then wl[p := (wl ! p)\<lparr>promise := Rejected e\<rparr>] else wl)"

definition clearTimeout :: "nat \<Rightarrow> wait list \<Rightarrow> wait list" where
  "clearTimeout p wl =
     (if p < length wl \<and> timer (wl ! p) = Armed
      then wl[p := (wl ! p)\<lparr>timer := Cleared\<rparr>] else wl)"

subsection \<open>connect\<close>

definition truthy_trim :: "jsstring option \<Rightarrow> jsstring option" where
  "truthy_trim l =
     (case l of None \<Rightarrow> None | Some x \<Rightarrow> if trim x = [] then None else Some (trim x))"

definition connect_url :: "session \<Rightarrow> url" where
  "connect_url s =
     (let u0 = new_URL (js ''wss://api.deepgram.com/v1/listen'');
          u1 = url_set (js ''model'') (model s) u0;
          u2 = (case truthy_trim (opt_language (options s)) of
                  None \<Rightarrow> u1 | Some l \<Rightarrow> url_set (js ''language'') l u1);
          u3 = url_set (js ''interim_results'') (js ''true'') u2;
          u4 = url_set (js ''punctuate'') (js ''true'') u3;
          u5 = url_set (js ''smart_format'') (js ''true'') u4;
          u6 = (if opt_vadEnabled (options s) = Some True
                then url_set (js ''vad_events'') (js ''true'') u5 else u5);
          u7 = (if opt_wordTimestamps (options s) = Some True
                then url_set (js ''utterance_end_ms'') (js ''1000'') u6 else u6)
      in u7)"

text \<open>The outcome of the handshake: the socket's first event.\<close>

datatype handshake = Opened | Failed jsstring

definition connect :: "session \<Rightarrow> handshake \<Rightarrow> js_error + session" where
  "connect s h =
     (let s1 = s\<lparr>ws := Some CONNECTING,
                 effects := effects s @ [WsConnect (connect_url s) (js ''Token '' @ apiKey s)]\<rparr>
      in case h of
           Opened \<Rightarrow> Inr (s1\<lparr>ws := Some OPEN\<rparr>)
         | Failed m \<Rightarrow> Inl (ConnectionFailed m))"

subsection \<open>The handlers installed by setupMessageHandlers\<close>

definition call_resolveTranscript :: "session \<Rightarrow> jsstring \<Rightarrow> session" where
  "call_resolveTranscript s v =
     (case resolveTranscript s of
        None \<Rightarrow> s
      | Some p \<Rightarrow> s\<lparr>waits := resolve_promise p v (clearTimeout p (waits s))\<rparr>)"

definition finishTranscript :: "session \<Rightarrow> session" where
  "finishTranscript s = call_resolveTranscript s (trim (finalTranscript s))"

definition first_alternative :: "stream_message \<Rightarrow> alternative option" where
  "first_alternative m =
     (case msg_channel m of
        None \<Rightarrow> None
      | Some ch \<Rightarrow>
          (case alternatives ch of
             None \<Rightarrow> None
           | Some [] \<Rightarrow> None
           | Some (a # _) \<Rightarrow> Some a))"

definition alt_text :: "alternative \<Rightarrow> jsstring" where
  "alt_text alt = (case transcript alt of None \<Rightarrow> [] | Some t \<Rightarrow> trim t)"

definition append_final :: "jsstring \<Rightarrow> jsstring \<Rightarrow> jsstring" where
  "append_final acc t = acc @ ((if acc \<noteq> [] then [0x0020] else []) @ t)"

definition on_results :: "session \<Rightarrow> stream_message \<Rightarrow> alternative \<Rightarrow> nat \<Rightarrow> session" where
  "on_results s m alt now =
     (let t = alt_text alt in
      if t \<noteq> [] then
        (let fin = (is_final m = Some True \<or> speech_final m = Some True);
             s1 = (if fin then s\<lparr>finalTranscript := append_final (finalTranscript s) t\<rparr>
                   else s)
         in case partialCallback s1 of
              None \<Rightarrow> s1
            | Some cb \<Rightarrow>
                s1\<lparr>effects := effects s1 @
                  [Callback cb \<lparr>chunk_text = t, isFinal = fin,
                     chunk_confidence = confidence alt, timestamp = now\<rparr>]\<rparr>)
      else s)"

text \<open>
  The \<^verbatim>\<open>message\<close> handler. \<open>None\<close> is a frame that \<^verbatim>\<open>JSON.parse\<close> rejects: the
  exception is caught and logged. \<open>now\<close> is \<^verbatim>\<open>Date.now()\<close>.
\<close>

definition handle_message :: "session \<Rightarrow> stream_message option \<Rightarrow> nat \<Rightarrow> session" where
  "handle_message s d now =
     (case d of
        None \<Rightarrow> s\<lparr>effects := effects s @ [ConsoleError]\<rparr>
      | Some m \<Rightarrow>
          (case (if msg_type m = Results then first_alternative m else None) of
             Some alt \<Rightarrow> on_results s m alt now
           | None \<Rightarrow>
               if msg_type m = UtteranceEnd then
                 (if opt_vadEnabled (options s) = Some True \<and> ended s
                  then finishTranscript s else s)
               else s))"

definition on_error :: "session \<Rightarrow> jsstring \<Rightarrow> session" where
  "on_error s m =
     (case rejectTranscript s of
        None \<Rightarrow> s
      | Some p \<Rightarrow> s\<lparr>waits := reject_promise p (WebSocketError m) (waits s)\<rparr>)"

text \<open>When the socket emits \<^verbatim>\<open>close\<close> its \<^verbatim>\<open>readyState\<close> is CLOSED.\<close>

definition on_close :: "session \<Rightarrow> session" where
  "on_close s =
     (let s1 = (case ws s of None \<Rightarrow> s | Some _ \<Rightarrow> s\<lparr>ws := Some CLOSED\<rparr>)
      in if ended s1 \<and> resolveTranscript s1 \<noteq> None then finishTranscript s1 else s1)"

subsection \<open>The methods of the session\<close>

definition sendAudio :: "session \<Rightarrow> buffer \<Rightarrow> js_error + session" where
  "sendAudio s audio =
     (if ws s = None \<or> ws s \<noteq> Some OPEN then Inl NotConnected
      else if ended s then Inl SessionEnded
      else Inr (s\<lparr>effects := effects s @ [WsSend (Binary audio)]\<rparr>))"

text \<open>\<^verbatim>\<open>JSON.stringify({ type: "CloseStream" })\<close>; 0x22 is the double quote.\<close>

definition close_stream_frame :: jsstring where
  "close_stream_frame =
     js ''{'' @ [0x22] @ js ''type'' @ [0x22] @ js '':'' @ [0x22] @ js ''CloseStream''
       @ [0x22] @ js ''}''"

definition endAudio :: "session \<Rightarrow> session" where
  "endAudio s =
     (let s1 = s\<lparr>ended := True\<rparr>
      in if ws s1 = Some OPEN
         then s1\<lparr>effects := effects s1 @ [WsSend (TextFrame close_stream_frame)]\<rparr>
         else s1)"

definition onPartial :: "session \<Rightarrow> nat \<Rightarrow> session" where
  "onPartial s cb = s\<lparr>partialCallback := Some cb\<rparr>"

definition waitForTranscript :: "session \<Rightarrow> js_number option \<Rightarrow> session" where
  "waitForTranscript s timeoutMs =
     (let ms = (case timeoutMs of None \<Rightarrow> Num 30000 | Some t \<Rightarrow> t);
          p = length (waits s)
      in s\<lparr>resolveTranscript := Some p, rejectTranscript := Some p,
            waits := waits s @ [\<lparr>promise = Pending, delay = ms, timer = Armed\<rparr>]\<rparr>)"

definition close :: "session \<Rightarrow> session" where
  "close s =
     (let s1 = (case ws s of
                  None \<Rightarrow> s
                | Some _ \<Rightarrow> s\<lparr>effects := effects s @ [WsClose], ws := None\<rparr>)
      in s1\<lparr>ended := True\<rparr>)"

text \<open>
  The callback of the timer armed by the \<open>p\<close>-th call of \<^verbatim>\<open>waitForTranscript\<close>. It
  runs only if the timer is still armed.
\<close>

definition timer_fire :: "session \<Rightarrow> nat \<Rightarrow> session" where
  "timer_fire s p =
     (if p < length (waits s) \<and> timer (waits s ! p) = Armed then
        close (s\<lparr>waits := reject_promise p TranscriptTimeout
                  ((waits s)[p := (waits s ! p)\<lparr>timer := Fired\<rparr>])\<rparr>)
      else s)"

subsection \<open>Event sequences\<close>

datatype event =
    Message "stream_message option" nat
  | SocketError jsstring
  | SocketClose
  | TimerFire nat
  | CallSendAudio buffer
  | CallEndAudio
  | CallOnPartial nat
  | CallWaitForTranscript "js_number option"
  | CallClose

text \<open>A \<^verbatim>\<open>sendAudio\<close> that throws leaves the session as it was.\<close>

fun step :: "session \<Rightarrow> event \<Rightarrow> session" where
  "step s (Message d now) = handle_message s d now"
| "step s (SocketError m) = on_error s m"
| "step s SocketClose = on_close s"
| "step s (TimerFire p) = timer_fire s p"
| "step s (CallSendAudio a) = (case sendAudio s a of Inl _ \<Rightarrow> s | Inr s' \<Rightarrow> s')"
| "step s CallEndAudio = endAudio s"
| "step s (CallOnPartial cb) = onPartial s cb"
| "step s (CallWaitForTranscript t) = waitForTranscript s t"
| "step s CallClose = close s"

definition run :: "session \<Rightarrow> event list \<Rightarrow> session" where
  "run s evs = foldl step s evs"

text \<open>
  The final fragment an event carries, in the words of the specification: a results event
  with a non-empty (trimmed) transcript fragment that is marked final.
\<close>

definition final_fragment :: "event \<Rightarrow> jsstring option" where
  "final_fragment e =
     (case e of
        Message (Some m) _ \<Rightarrow>
          (if msg_type m = Results then
             (case first_alternative m of
                None \<Rightarrow> None
              | Some alt \<Rightarrow>
                  if alt_text alt \<noteq> [] \<and> (is_final m = Some True \<or> speech_final m = Some True)
                  then Some (alt_text alt) else None)
           else None)
      | _ \<Rightarrow> None)"

definition final_fragments :: "event list \<Rightarrow> jsstring list" where
  "final_fragments evs = List.map_filter final_fragment evs"

text \<open>A results event marked final that carries the transcript \<open>t\<close>.\<close>

definition final_result :: "jsstring \<Rightarrow> real option \<Rightarrow> nat \<Rightarrow> event" where
  "final_result t c now =
     Message (Some \<lparr>msg_type = Results,
        msg_channel = Some \<lparr>alternatives = Some [\<lparr>transcript = Some t, confidence = c\<rparr>]\<rparr>,
        is_final = Some True, speech_final = None\<rparr>) now"


text \<open>A wait that can still be settled: stored in the session, pending, its timer armed.\<close>

definition outstanding :: "session \<Rightarrow> nat \<Rightarrow> bool" where
  "outstanding s p =
     (resolveTranscript s = Some p \<and> p < length (waits s)
      \<and> promise (waits s ! p) = Pending \<and> timer (waits s ! p) = Armed)"

text \<open>A string with no whitespace at either end.\<close>

definition clean :: "jsstring \<Rightarrow> bool" where
  "clean s = (s = [] \<or> (\<not> is_ws (hd s) \<and> \<not> is_ws (last s)))"

text \<open>
  The wait that the session holds in both of its slots and that is still pending with its
  timer armed: what a call of \<^verbatim>\<open>waitForTranscript\<close> leaves behind.
\<close>

definition registered :: "session \<Rightarrow> nat \<Rightarrow> bool" where
  "registered s p = (outstanding s p \<and> rejectTranscript s = Some p)"

text \<open>
  The events that call \<^verbatim>\<open>finishTranscript\<close> in a given state: an UtteranceEnd message
  when voice-activity detection is enabled and the session has ended, and the socket
  closing when the session has ended and a resolver is stored.
\<close>

fun finalizes :: "session \<Rightarrow> event \<Rightarrow> bool" where
  "finalizes s (Message (Some m) now) =
     (msg_type m = UtteranceEnd \<and> opt_vadEnabled (options s) = Some True \<and> ended s)"
| "finalizes s SocketClose = (ended s \<and> resolveTranscript s \<noteq> None)"
| "finalizes s e = False"

text \<open>
  The events after which the \<open>p\<close>-th wait is no longer registered: a finalizing event, a
  socket error, the wait's own timer, another call of \<^verbatim>\<open>waitForTranscript\<close>.
\<close>

fun ends_wait :: "session \<Rightarrow> nat \<Rightarrow> event \<Rightarrow> bool" where
  "ends_wait s p (SocketError m) = True"
| "ends_wait s p (TimerFire q) = (q = p)"
| "ends_wait s p (CallWaitForTranscript t) = True"
| "ends_wait s p e = finalizes s e"

text \<open>A sequence of events none of which, in the state it meets, ends the \<open>p\<close>-th wait.\<close>

fun quiet :: "session \<Rightarrow> nat \<Rightarrow> event list \<Rightarrow> bool" where
  "quiet s p [] = True"
| "quiet s p (e # es) = (\<not> ends_wait s p e \<and> quiet (step s e) p es)"

section \<open>The provider\<close>

text \<open>\<^verbatim>\<open>DeepgramConfig\<close>: every property is optional.\<close>

record deepgram_config =
  c_apiKey :: "jsstring option"
  c_baseUrl :: "jsstring option"
  c_model :: "jsstring option"
  c_language :: "jsstring option"
  c_wordTimestamps :: "bool option"
  c_timeoutMs :: "js_number option"

text \<open>
  The fields of \<^verbatim>\<open>DeepgramProvider\<close>: \<^verbatim>\<open>this.config\<close> (the \<open>cfg_\<close> fields) and
  \<^verbatim>\<open>this.baseUrl\<close>.
\<close>

record provider =
  cfg_apiKey :: jsstring
  cfg_baseUrl :: jsstring
  cfg_model :: jsstring
  cfg_language :: jsstring
  cfg_wordTimestamps :: bool
  cfg_timeoutMs :: js_number
  baseUrl :: jsstring

definition DEFAULT_baseUrl :: jsstring where
  "DEFAULT_baseUrl = js ''https://api.deepgram.com/v1''"

definition DEFAULT_model :: jsstring where
  "DEFAULT_model = js ''nova-3''"

definition DEFAULT_language :: jsstring where
  "DEFAULT_language = js ''en''"

definition DEFAULT_wordTimestamps :: bool where
  "DEFAULT_wordTimestamps = False"

definition DEFAULT_timeoutMs :: js_number where
  "DEFAULT_timeoutMs = Num 30000"

text \<open>\<^verbatim>\<open>x || y\<close> on strings: the empty string and \<^verbatim>\<open>undefined\<close> are falsy.\<close>

definition truthy :: "jsstring option \<Rightarrow> jsstring option" where
  "truthy x = (case x of None \<Rightarrow> None | Some v \<Rightarrow> if v = [] then None else Some v)"

definition normalizeBaseUrl :: "jsstring option \<Rightarrow> jsstring \<Rightarrow> jsstring" where
  "normalizeBaseUrl b fallback =
     (let raw = (case truthy_trim b of None \<Rightarrow> fallback | Some t \<Rightarrow> t)
      in rev (dropWhile (\<lambda>c. c = 0x002F) (rev raw)))"

text \<open>The constructor; \<open>env\<close> is \<^verbatim>\<open>process.env.DEEPGRAM_API_KEY\<close>.\<close>

definition new_provider :: "deepgram_config \<Rightarrow> jsstring option \<Rightarrow> js_error + provider" where
  "new_provider config env =
     (let k = (case truthy (c_apiKey config) of
                 Some a \<Rightarrow> a
               | None \<Rightarrow> (case truthy env of Some a \<Rightarrow> a | None \<Rightarrow> []))
      in if k = [] then Inl ApiKeyRequired
         else
           (let b = (case c_baseUrl config of None \<Rightarrow> DEFAULT_baseUrl | Some x \<Rightarrow> x)
            in Inr \<lparr>cfg_apiKey = k,
                 cfg_baseUrl = b,
                 cfg_model = (case c_model config of None \<Rightarrow> DEFAULT_model | Some x \<Rightarrow> x),
                 cfg_language = (case c_language config of None \<Rightarrow> DEFAULT_language | Some x \<Rightarrow> x),
                 cfg_wordTimestamps =
                   (case c_wordTimestamps config of None \<Rightarrow> DEFAULT_wordTimestamps | Some x \<Rightarrow> x),
                 cfg_timeoutMs =
                   (case c_timeoutMs config of None \<Rightarrow> DEFAULT_timeoutMs | Some x \<Rightarrow> x),
                 baseUrl = normalizeBaseUrl (Some b) DEFAULT_baseUrl\<rparr>))"

definition validModels :: "jsstring list" where
  "validModels = [js ''nova-3'', js ''nova-2'', js ''nova'', js ''enhanced'', js ''base'']"

definition validateConfig :: "provider \<Rightarrow> js_error + unit" where
  "validateConfig P =
     (if cfg_apiKey P = [] then Inl ApiKeyRequired
      else if cfg_model P \<notin> set validModels then Inl (InvalidModel (cfg_model P))
      else if js_lt (cfg_timeoutMs P) (Num 1000) \<or> js_gt (cfg_timeoutMs P) (Num 300000)
        then Inl (InvalidTimeout (cfg_timeoutMs P))
      else Inr ())"

subsection \<open>createSession\<close>

text \<open>
  The object literal \<^verbatim>\<open>{ language: ..., wordTimestamps: ..., ...options }\<close>: a property
  that \<open>call_options\<close> has replaces the provider's.
\<close>

definition session_options :: "provider \<Rightarrow> stt_options option \<Rightarrow> stt_options" where
  "session_options P call_options =
     (case call_options of
        None \<Rightarrow>
          \<lparr>opt_language = Some (cfg_language P), opt_vadEnabled = None,
           opt_wordTimestamps = Some (cfg_wordTimestamps P)\<rparr>
      | Some opts \<Rightarrow>
          \<lparr>opt_language =
             (case opt_language opts of None \<Rightarrow> Some (cfg_language P) | Some l \<Rightarrow> Some l),
           opt_vadEnabled = opt_vadEnabled opts,
           opt_wordTimestamps =
             (case opt_wordTimestamps opts of
                None \<Rightarrow> Some (cfg_wordTimestamps P) | Some w \<Rightarrow> Some w)\<rparr>)"

definition createSession :: "provider \<Rightarrow> stt_options option \<Rightarrow> handshake \<Rightarrow> js_error + session" where
  "createSession P call_options h =
     connect (new_session (cfg_apiKey P) (cfg_model P) (session_options P call_options)) h"

subsection \<open>transcribe\<close>

record request =
  req_url :: url
  req_method :: jsstring
  req_headers :: "(jsstring \<times> jsstring) list"
  req_body :: "buffer option"
  req_timeoutMs :: js_number

text \<open>
  A \<^verbatim>\<open>Response\<close>: its status, what \<^verbatim>\<open>res.text()\<close> gives (\<open>None\<close> when it throws) and
  what \<^verbatim>\<open>res.json()\<close> gives (\<open>None\<close> when it throws). \<^verbatim>\<open>res.ok\<close> is true for the
  statuses 200 to 299.
\<close>

record response =
  status :: nat
  body_text :: "jsstring option"
  body_json :: "transcript_response option"

definition response_ok :: "response \<Rightarrow> bool" where
  "response_ok r = (200 \<le> status r \<and> status r \<le> 299)"

datatype fetch_outcome = Rejects | Responds response

text \<open>\<^verbatim>\<open>text.replace(/\s+/g, " ")\<close>: every maximal run of whitespace becomes one space.\<close>

function collapse_ws :: "jsstring \<Rightarrow> jsstring" where
  "collapse_ws [] = []"
| "collapse_ws (c # cs) =
     (if is_ws c then 0x0020 # collapse_ws (dropWhile is_ws cs) else c # collapse_ws cs)"
  by pat_completeness auto
termination
  by (relation "measure length") (auto simp: length_dropWhile_le le_imp_less_Suc)

text \<open>
  What line 119 of \<^verbatim>\<open>src/index.ts\<close> appends after the slice: the file holds the
  bytes e2 80 9a, c3 84, c2 b6 there, the three characters U+201A, U+00C4 and U+00B6. They
  are what the UTF-8 bytes e2 80 a6 of the ellipsis U+2026 become when each byte is read as a
  Mac Roman character.
\<close>

definition truncation_marker :: jsstring where
  "truncation_marker = [0x201A, 0x00C4, 0x00B6]"

definition readErrorResponse :: "response \<Rightarrow> jsstring option" where
  "readErrorResponse r =
     (case body_text r of
        None \<Rightarrow> None
      | Some t \<Rightarrow>
          (let collapsed = trim (collapse_ws t) in
           if collapsed = [] then None
           else if length collapsed \<le> 300 then Some collapsed
           else Some (take 300 collapsed @ truncation_marker)))"

definition failure_message :: "nat \<Rightarrow> jsstring option \<Rightarrow> jsstring" where
  "failure_message st detail =
     js ''Deepgram transcription failed (HTTP '' @ show_nat st @ js '')''
       @ (case detail of None \<Rightarrow> [] | Some d \<Rightarrow> js '': '' @ d)"

definition transcribe_language :: "provider \<Rightarrow> stt_options option \<Rightarrow> jsstring" where
  "transcribe_language P call_options =
     (case call_options of
        None \<Rightarrow> cfg_language P
      | Some opts \<Rightarrow>
          (case truthy (opt_language opts) of None \<Rightarrow> cfg_language P | Some l \<Rightarrow> l))"

definition transcribe_wordTimestamps :: "provider \<Rightarrow> stt_options option \<Rightarrow> bool" where
  "transcribe_wordTimestamps P call_options =
     ((case call_options of None \<Rightarrow> False | Some opts \<Rightarrow> opt_wordTimestamps opts = Some True)
      \<or> cfg_wordTimestamps P)"

definition transcribe_url :: "provider \<Rightarrow> stt_options option \<Rightarrow> url" where
  "transcribe_url P call_options =
     (let u0 = new_URL (baseUrl P @ js ''/listen'');
          u1 = url_set (js ''model'') (cfg_model P) u0;
          u2 = (case truthy_trim (Some (transcribe_language P call_options)) of
                  None \<Rightarrow> u1 | Some l \<Rightarrow> url_set (js ''language'') l u1);
          u3 = url_set (js ''punctuate'') (js ''true'') u2;
          u4 = url_set (js ''smart_format'') (js ''true'') u3;
          u5 = (if transcribe_wordTimestamps P call_options
                then url_set (js ''utterances'') (js ''true'') u4 else u4)
      in u5)"

definition transcribe_request :: "provider \<Rightarrow> buffer \<Rightarrow> stt_options option \<Rightarrow> request" where
  "transcribe_request P audio call_options =
     \<lparr>req_url = transcribe_url P call_options,
      req_method = js ''POST'',
      req_headers = [(js ''Authorization'', js ''Token '' @ cfg_apiKey P),
                     (js ''Content-Type'', js ''application/octet-stream'')],
      req_body = Some audio,
      req_timeoutMs = cfg_timeoutMs P\<rparr>"

definition first_channel :: "transcript_response \<Rightarrow> channel option" where
  "first_channel payload =
     (case results payload of
        None \<Rightarrow> None
      | Some rs \<Rightarrow>
          (case channels rs of None \<Rightarrow> None | Some [] \<Rightarrow> None | Some (ch # _) \<Rightarrow> Some ch))"

definition top_alternative :: "transcript_response \<Rightarrow> alternative option" where
  "top_alternative payload =
     (case first_channel payload of
        None \<Rightarrow> None
      | Some ch \<Rightarrow>
          (case alternatives ch of None \<Rightarrow> None | Some [] \<Rightarrow> None | Some (a # _) \<Rightarrow> Some a))"

definition top_transcript :: "transcript_response \<Rightarrow> jsstring option" where
  "top_transcript payload =
     (case top_alternative payload of
        None \<Rightarrow> None
      | Some a \<Rightarrow> (case transcript a of None \<Rightarrow> None | Some t \<Rightarrow> Some (trim t)))"

text \<open>
  The result of \<^verbatim>\<open>transcribe\<close>, given what \<^verbatim>\<open>fetchWithTimeout\<close> did with the request
  \<open>transcribe_request P audio call_options\<close>.
\<close>

definition transcribe :: "provider \<Rightarrow> buffer \<Rightarrow> stt_options option \<Rightarrow> fetch_outcome \<Rightarrow> js_error + jsstring" where
  "transcribe P audio call_options outcome =
     (case outcome of
        Rejects \<Rightarrow> Inl FetchFailed
      | Responds res \<Rightarrow>
          if \<not> response_ok res
          then Inl (TranscriptionFailed (failure_message (status res) (readErrorResponse res)))
          else
            (case body_json res of
               None \<Rightarrow> Inl JsonSyntaxError
             | Some payload \<Rightarrow>
                 (case top_transcript payload of
                    None \<Rightarrow> Inl MissingTranscript
                  | Some t \<Rightarrow> if t = [] then Inl MissingTranscript else Inr t)))"

subsection \<open>healthCheck\<close>

definition healthCheck_request :: "provider \<Rightarrow> request" where
  "healthCheck_request P =
     \<lparr>req_url = url_set (js ''model'') (cfg_model P) (new_URL (baseUrl P @ js ''/listen'')),
      req_method = js ''GET'',
      req_headers = [(js ''Authorization'', js ''Token '' @ cfg_apiKey P)],
      req_body = None,
      req_timeoutMs = Num 5000\<rparr>"

definition healthCheck :: "provider \<Rightarrow> fetch_outcome \<Rightarrow> bool" where
  "healthCheck P outcome =
     (case outcome of Rejects \<Rightarrow> False | Responds res \<Rightarrow> status res = 405 \<or> response_ok res)"

text \<open>The head of the failure message, before the optional body snippet.\<close>

definition failure_head :: "nat \<Rightarrow> jsstring" where
  "failure_head st = js ''Deepgram transcription failed (HTTP '' @ show_nat st @ js '')''"

text \<open>Reading a string of decimal digits back as a number.\<close>

definition parse_decimal :: "jsstring \<Rightarrow> nat" where
  "parse_decimal ds = foldl (\<lambda>acc c. 10 * acc + (unat c - 48)) 0 ds"

subsection \<open>Plugin initialisation\<close>

text \<open>
  \<^verbatim>\<open>plugin.init\<close>: construct the provider, validate it, and register it only if
  neither step throws.
\<close>

definition init :: "deepgram_config \<Rightarrow> jsstring option \<Rightarrow> js_error + provider" where
  "init config env =
     (case new_provider config env of
        Inl e \<Rightarrow> Inl e
      | Inr P \<Rightarrow> (case validateConfig P of Inl e \<Rightarrow> Inl e | Inr _ \<Rightarrow> Inr P))"

section \<open>Concrete inputs\<close>

definition no_options :: stt_options where
  "no_options = \<lparr>opt_language = None, opt_vadEnabled = None, opt_wordTimestamps = None\<rparr>"

definition hello_world_events :: "event list" where
  "hello_world_events =
     [CallWaitForTranscript None, final_result (js ''hello'') None 0,
      final_result (js ''world'') None 1]"


text \<open>
  A provider, and the session that \<^verbatim>\<open>createSession\<close> returns for it with
  voice-activity detection enabled, and waits on that session.
\<close>

definition test_provider :: provider where
  "test_provider =
     \<lparr>cfg_apiKey = js ''key'', cfg_baseUrl = js ''https://api.deepgram.com/v1'',
      cfg_model = js ''nova-3'', cfg_language = js ''en'', cfg_wordTimestamps = False,
      cfg_timeoutMs = Num 30000, baseUrl = js ''https://api.deepgram.com/v1''\<rparr>"

definition vad_options :: stt_options where
  "vad_options = \<lparr>opt_language = None, opt_vadEnabled = Some True, opt_wordTimestamps = None\<rparr>"

definition vad_session :: session where
  "vad_session = projr (createSession test_provider (Some vad_options) Opened)"

definition vad_connect :: effect where
  "vad_connect =
     WsConnect
       (connect_url (new_session (js ''key'') (js ''nova-3'')
          \<lparr>opt_language = Some (js ''en''), opt_vadEnabled = Some True,
           opt_wordTimestamps = Some False\<rparr>))
       (js ''Token '' @ js ''key'')"

definition utterance_end :: stream_message where
  "utterance_end =
     \<lparr>msg_type = UtteranceEnd, msg_channel = None, is_final = None, speech_final = None\<rparr>"

definition vad_events :: "event list" where
  "vad_events = [final_result (js ''hello'') None 0]"

definition vad_waiting :: session where
  "vad_waiting = waitForTranscript vad_session None"

definition second_wait :: session where
  "second_wait = waitForTranscript vad_waiting None"

definition short_wait :: session where
  "short_wait = waitForTranscript vad_session (Some (Num 100))"

definition wait_events :: "event list" where
  "wait_events = [final_result (js ''hello'') None 0, CallEndAudio]"

text \<open>Batch responses, providers and configurations.\<close>

definition payload_with :: "jsstring option \<Rightarrow> transcript_response" where
  "payload_with t =
     \<lparr>results = Some \<lparr>channels = Some [\<lparr>alternatives = Some [\<lparr>transcript = t, confidence = None\<rparr>]\<rparr>]\<rparr>\<rparr>"

definition ok_response :: "transcript_response \<Rightarrow> response" where
  "ok_response payload = \<lparr>status = 200, body_text = None, body_json = Some payload\<rparr>"

definition unauthorized :: response where
  "unauthorized =
     \<lparr>status = 401, body_text = Some (js '' Invalid   credentials. ''), body_json = None\<rparr>"

definition long_failure :: response where
  "long_failure = \<lparr>status = 500, body_text = Some (replicate 305 0x0061), body_json = None\<rparr>"

definition nan_config :: deepgram_config where
  "nan_config =
     \<lparr>c_apiKey = Some (js ''key''), c_baseUrl = None, c_model = None, c_language = None,
      c_wordTimestamps = None, c_timeoutMs = Some NaN\<rparr>"

definition ts_config :: deepgram_config where
  "ts_config =
     \<lparr>c_apiKey = Some (js ''key''), c_baseUrl = None, c_model = None, c_language = None,
      c_wordTimestamps = Some True, c_timeoutMs = None\<rparr>"

definition no_timestamps :: stt_options where
  "no_timestamps =
     \<lparr>opt_language = None, opt_vadEnabled = None, opt_wordTimestamps = Some False\<rparr>"

definition plain_config :: deepgram_config where
  "plain_config =
     \<lparr>c_apiKey = Some (js ''key''), c_baseUrl = None, c_model = None, c_language = None,
      c_wordTimestamps = None, c_timeoutMs = None\<rparr>"

definition custom_provider :: provider where
  "custom_provider =
     \<lparr>cfg_apiKey = js ''key'', cfg_baseUrl = js '' https://example.test/v2// '',
      cfg_model = js ''nova-3'', cfg_language = js ''en'', cfg_wordTimestamps = False,
      cfg_timeoutMs = Num 30000, baseUrl = js ''https://example.test/v2''\<rparr>"

section \<open>The concrete session\<close>

lemma vad_session_created:
  "createSession test_provider (Some vad_options) Opened = Inr vad_session"
  by (simp add: vad_session_def createSession_def connect_def Let_def)

lemma vad_session_eq:
  "vad_session =
     (new_session (js ''key'') (js ''nova-3'')
        \<lparr>opt_language = Some (js ''en''), opt_vadEnabled = Some True,
         opt_wordTimestamps = Some False\<rparr>)\<lparr>ws := Some OPEN, effects := [vad_connect]\<rparr>"
  by (simp add: vad_session_def createSession_def connect_def session_options_def
      test_provider_def vad_options_def vad_connect_def new_session_def Let_def)

section \<open>Strings: trimming and joining\<close>

lemma trimEnd_split: "xs = rev (dropWhile P (rev xs)) @ rev (takeWhile P (rev xs))"
proof -
  have "rev (takeWhile P (rev xs) @ dropWhile P (rev xs)) = xs"
    by (simp only: takeWhile_dropWhile_id rev_rev_ident)
  then show ?thesis by (simp only: rev_append)
qed

lemma trim_clean: "clean (trim x)"
proof (cases "trim x = []")
  case True
  then show ?thesis by (simp add: clean_def)
next
  case False
  let ?ys = "dropWhile is_ws x"
  let ?zs = "dropWhile is_ws (rev ?ys)"
  have t: "trim x = rev ?zs" by (simp add: trim_def)
  from False t have zne: "?zs \<noteq> []" by simp
  have yne: "?ys \<noteq> []"
  proof
    assume "?ys = []"
    then have "?zs = []" by (simp only: rev.simps(1) dropWhile.simps(1))
    with zne show False by simp
  qed
  have l: "\<not> is_ws (last (trim x))"
    using zne hd_dropWhile[of is_ws "rev ?ys"] by (simp add: t last_rev)
  have "?ys = rev ?zs @ rev (takeWhile is_ws (rev ?ys))" by (rule trimEnd_split)
  then have "hd ?ys = hd (rev ?zs)" using zne by (metis hd_append2 rev_is_Nil_conv)
  moreover have "\<not> is_ws (hd ?ys)" using yne hd_dropWhile[of is_ws x] by simp
  ultimately have "\<not> is_ws (hd (trim x))" by (simp add: t)
  with l show ?thesis by (simp add: clean_def)
qed

lemma clean_trim: "clean s \<Longrightarrow> trim s = s"
proof (cases "s = []")
  case True then show ?thesis by (simp add: trim_def)
next
  case False
  assume "clean s"
  with False have h: "\<not> is_ws (hd s)" and l: "\<not> is_ws (last s)" by (auto simp: clean_def)
  from False h have 1: "dropWhile is_ws s = s" by (cases s) auto
  from False l have 2: "dropWhile is_ws (rev s) = rev s" by (cases "rev s") (auto simp: last_rev hd_rev)
  show ?thesis by (simp add: trim_def 1 2)
qed

lemma not_ws_space: "is_ws 0x0020"
  by (simp add: is_ws_def)

lemma clean_append_final:
  "clean acc \<Longrightarrow> clean t \<Longrightarrow> t \<noteq> [] \<Longrightarrow> clean (append_final acc t)"
  by (auto simp: clean_def append_final_def)

lemma append_final_nonempty: "t \<noteq> [] \<Longrightarrow> append_final acc t \<noteq> []"
  by (simp add: append_final_def)

section \<open>The accumulated final transcript\<close>

lemma alt_text_clean: "clean (alt_text a)"
  by (cases "transcript a") (simp_all add: alt_text_def trim_clean, simp add: clean_def)

lemma final_fragment_Some: "final_fragment e = Some t \<Longrightarrow> t \<noteq> [] \<and> clean t"
  by (auto simp: final_fragment_def alt_text_clean split: event.splits option.splits if_splits)

lemma finalTranscript_call_resolve [simp]:
  "finalTranscript (call_resolveTranscript s v) = finalTranscript s"
  by (simp add: call_resolveTranscript_def split: option.splits)

lemma finalTranscript_finish [simp]: "finalTranscript (finishTranscript s) = finalTranscript s"
  by (simp add: finishTranscript_def)

lemma finalTranscript_close [simp]: "finalTranscript (close s) = finalTranscript s"
  by (simp add: close_def split: option.splits)

lemma finalTranscript_step:
  "finalTranscript (step s e) =
     (case final_fragment e of None \<Rightarrow> finalTranscript s
      | Some t \<Rightarrow> append_final (finalTranscript s) t)"
proof (cases e)
  case (Message d now)
  then show ?thesis
    by (auto simp: handle_message_def on_results_def final_fragment_def Let_def
        split: option.splits)
qed (auto simp: final_fragment_def on_error_def on_close_def timer_fire_def sendAudio_def
      endAudio_def onPartial_def waitForTranscript_def Let_def split: option.splits)


lemma join_space_nonempty: "x \<noteq> [] \<Longrightarrow> join_space (x # xs) \<noteq> []"
  by (cases xs) simp_all

lemma join_space_snoc:
  "list_all (\<lambda>x. x \<noteq> []) ts \<Longrightarrow> join_space (ts @ [t]) = append_final (join_space ts) t"
proof (induction ts rule: join_space.induct)
  case 1
  then show ?case by (simp add: append_final_def)
next
  case (2 x)
  then show ?case by (simp add: append_final_def)
next
  case (3 x y ys)
  then have "join_space (y # ys) \<noteq> []" by (simp add: join_space_nonempty)
  with 3 show ?case by (simp add: append_final_def)
qed

lemma final_fragments_snoc:
  "final_fragments (evs @ [e]) =
     final_fragments evs @ (case final_fragment e of None \<Rightarrow> [] | Some t \<Rightarrow> [t])"
  by (simp add: final_fragments_def List.map_filter_def split: option.splits)

lemma final_fragments_nonempty: "list_all (\<lambda>x. x \<noteq> []) (final_fragments evs)"
  by (auto simp: final_fragments_def List.map_filter_def list_all_iff
      dest: final_fragment_Some)

lemma join_fragments_clean: "clean (join_space (final_fragments evs))"
proof (induction evs rule: rev_induct)
  case Nil
  then show ?case by (simp add: final_fragments_def List.map_filter_def clean_def)
next
  case (snoc e evs)
  show ?case
  proof (cases "final_fragment e")
    case None
    with snoc show ?thesis by (simp add: final_fragments_snoc)
  next
    case (Some t)
    then have "t \<noteq> []" "clean t" using final_fragment_Some by blast+
    with snoc Some show ?thesis
      by (simp add: final_fragments_snoc join_space_snoc final_fragments_nonempty
          clean_append_final)
  qed
qed

lemma run_snoc: "run s (evs @ [e]) = step (run s evs) e"
  by (simp add: run_def)

lemma run_from_empty:
  "finalTranscript s = [] \<Longrightarrow> finalTranscript (run s evs) = join_space (final_fragments evs)"
proof (induction evs rule: rev_induct)
  case Nil
  then show ?case by (simp add: run_def final_fragments_def List.map_filter_def)
next
  case (snoc e evs)
  then show ?case
    by (cases "final_fragment e")
      (simp_all add: run_snoc finalTranscript_step final_fragments_snoc join_space_snoc
        final_fragments_nonempty)
qed

lemma created_empty:
  "createSession P copts h = Inr s \<Longrightarrow> finalTranscript s = []"
  by (auto simp: createSession_def connect_def new_session_def Let_def split: handshake.splits)

lemma step_prefix: "prefix (finalTranscript s) (finalTranscript (step s e))"
  by (cases "final_fragment e") (simp_all add: finalTranscript_step append_final_def)

lemma run_prefix: "prefix (finalTranscript s) (finalTranscript (run s evs))"
proof (induction evs rule: rev_induct)
  case Nil
  then show ?case by (simp add: run_def)
next
  case (snoc e evs)
  then show ?case using step_prefix[of "run s evs" e] by (auto simp: run_snoc intro: prefix_order.trans)
qed

lemma finish_outstanding:
  "outstanding s p \<Longrightarrow>
     waits (finishTranscript s) ! p = (waits s ! p)\<lparr>promise := Fulfilled (trim (finalTranscript s)), timer := Cleared\<rparr>"
  by (simp add: outstanding_def finishTranscript_def call_resolveTranscript_def
      resolve_promise_def clearTimeout_def)


text \<open>
  Claim C1. A session is created with an empty final transcript, and \<^verbatim>\<open>createSession\<close>
  returns it so. From a session with an empty final transcript, after any sequence of
  events the final transcript is the final fragments received (the trimmed, non-empty
  transcripts of the results events marked final), in arrival order, joined with single
  spaces. That text has no whitespace at either end, so trimming at finalization returns it
  as it is, and an outstanding wait is fulfilled with exactly that text. The accumulation
  is append-only: whatever a session does next, in one event or in many, the transcript it
  had is a prefix of the transcript it has afterwards.
\<close>

theorem final_transcript_joins_fragments:
  "finalTranscript (new_session k m opts) = []
   \<and> (createSession P copts h = Inr s1 \<longrightarrow> finalTranscript s1 = [])
   \<and> (finalTranscript s0 = [] \<longrightarrow>
        finalTranscript (run s0 evs) = join_space (final_fragments evs)
        \<and> trim (finalTranscript (run s0 evs)) = join_space (final_fragments evs)
        \<and> (outstanding (run s0 evs) p \<longrightarrow>
             promise (waits (finishTranscript (run s0 evs)) ! p)
               = Fulfilled (join_space (final_fragments evs))))
   \<and> prefix (finalTranscript s) (finalTranscript (step s e))
   \<and> prefix (finalTranscript s) (finalTranscript (run s evs))"
proof -
  have c: "trim (join_space (final_fragments evs)) = join_space (final_fragments evs)"
    by (rule clean_trim) (rule join_fragments_clean)
  have n: "finalTranscript (new_session k m opts) = []" by (simp add: new_session_def)
  show ?thesis
    using created_empty[of P copts h s1]
    by (simp add: n run_from_empty c finish_outstanding step_prefix run_prefix)
qed

text \<open>
  The session returned by \<^verbatim>\<open>createSession\<close> waits and receives the final fragments
  "hello" then "world": the transcript, and the text that fulfils the wait, are exactly
  "hello world".
\<close>

lemma final_fragments_hello: "final_fragments hello_world_events = [js ''hello'', js ''world'']"
  by (simp add: hello_world_events_def final_fragments_def List.map_filter_def final_fragment_def
    final_result_def first_alternative_def alt_text_def trim_def is_ws_def js_def)

lemma outstanding_hello: "outstanding (run vad_session hello_world_events) 0"
  by (simp add: hello_world_events_def run_def final_result_def outstanding_def vad_session_eq
      new_session_def waitForTranscript_def handle_message_def on_results_def
      first_alternative_def alt_text_def trim_def is_ws_def js_def Let_def append_final_def)

theorem final_transcript_hello_world:
  "createSession test_provider (Some vad_options) Opened = Inr vad_session
   \<and> finalTranscript vad_session = []
   \<and> finalTranscript (run vad_session hello_world_events) = js ''hello world''
   \<and> promise (waits (finishTranscript (run vad_session hello_world_events)) ! 0)
       = Fulfilled (js ''hello world'')"
  using final_transcript_joins_fragments[of "[]" "[]" no_options test_provider
      "Some vad_options" Opened vad_session vad_session hello_world_events 0]
  by (simp add: vad_session_created final_fragments_hello outstanding_hello js_def)

section \<open>Finalization at an utterance boundary\<close>

lemmas session_defs = handle_message_def on_results_def on_error_def on_close_def
  timer_fire_def sendAudio_def endAudio_def onPartial_def waitForTranscript_def close_def
  finishTranscript_def call_resolveTranscript_def

lemma ended_step: "ended s \<Longrightarrow> ended (step s e)"
  by (cases e) (auto simp: session_defs Let_def split: option.splits)

lemma ended_run: "ended s \<Longrightarrow> ended (run s evs)"
  by (induction evs rule: rev_induct) (simp_all add: run_def ended_step)

lemma options_step: "options (step s e) = options s"
  by (cases e) (auto simp: session_defs Let_def split: option.splits)

lemma options_run: "options (run s evs) = options s"
  by (induction evs rule: rev_induct) (simp_all add: run_def options_step)

lemma ended_endAudio: "ended (endAudio s)"
  by (simp add: endAudio_def Let_def)

lemma utterance_end_handled:
  "msg_type m = UtteranceEnd \<Longrightarrow>
     handle_message s (Some m) now =
       (if opt_vadEnabled (options s) = Some True \<and> ended s then finishTranscript s else s)"
  by (simp add: handle_message_def)

lemma finish_fields:
  "ws (finishTranscript s) = ws s" "effects (finishTranscript s) = effects s"
  "ended (finishTranscript s) = ended s"
  by (simp_all add: finishTranscript_def call_resolveTranscript_def split: option.splits)

lemma finish_no_wait: "resolveTranscript s = None \<Longrightarrow> finishTranscript s = s"
  by (simp add: finishTranscript_def call_resolveTranscript_def)

text \<open>
  Claim C2. Once \<^verbatim>\<open>endAudio\<close> has been called the session stays ended, whatever events
  follow, and its options never change. When an UtteranceEnd message arrives at a session
  with voice-activity detection enabled and end-of-audio signaled, the outstanding wait is
  fulfilled with the trimmed accumulated final text and its timer is cleared, while the
  socket is left as it is and nothing is sent or closed; with no wait stored the message
  changes nothing. When voice-activity detection is not enabled or end-of-audio has not
  been signaled, an UtteranceEnd message changes nothing.
\<close>

theorem utterance_end_finalizes:
  "ended (run (endAudio s0) evs)
   \<and> options (run (endAudio s0) evs) = options s0
   \<and> (msg_type m = UtteranceEnd \<longrightarrow>
        (opt_vadEnabled (options s) = Some True \<and> ended s \<and> outstanding s p \<longrightarrow>
           promise (waits (handle_message s (Some m) now) ! p) = Fulfilled (trim (finalTranscript s))
           \<and> timer (waits (handle_message s (Some m) now) ! p) = Cleared
           \<and> ws (handle_message s (Some m) now) = ws s
           \<and> effects (handle_message s (Some m) now) = effects s)
        \<and> (opt_vadEnabled (options s) = Some True \<and> ended s \<and> resolveTranscript s = None \<longrightarrow>
             handle_message s (Some m) now = s)
        \<and> (\<not> (opt_vadEnabled (options s) = Some True \<and> ended s) \<longrightarrow>
             handle_message s (Some m) now = s))"
proof -
  have a: "ended (run (endAudio s0) evs)"
    by (rule ended_run) (rule ended_endAudio)
  have b: "options (run (endAudio s0) evs) = options s0"
    by (simp add: options_run endAudio_def Let_def)
  show ?thesis
    by (simp add: a b utterance_end_handled finish_fields finish_outstanding finish_no_wait)
qed

text \<open>
  A session with voice-activity detection waits, ends its audio and receives "hello":
  the UtteranceEnd message fulfils the wait with "hello" while the socket is still open.
  Before \<^verbatim>\<open>endAudio\<close> the same message does nothing.
\<close>

lemma vad_run_facts:
  "opt_vadEnabled (options (run (endAudio vad_waiting) vad_events)) = Some True"
  "outstanding (run (endAudio vad_waiting) vad_events) 0"
  "finalTranscript (run (endAudio vad_waiting) vad_events) = js ''hello''"
  "ws (run (endAudio vad_waiting) vad_events) = Some OPEN"
  by (simp_all add: vad_waiting_def vad_events_def vad_session_eq run_def final_result_def
      outstanding_def new_session_def waitForTranscript_def handle_message_def on_results_def
      first_alternative_def alt_text_def endAudio_def trim_def is_ws_def js_def Let_def
      append_final_def)

theorem utterance_end_finalizes_witness:
  "msg_type utterance_end = UtteranceEnd
   \<and> ended (run (endAudio vad_waiting) vad_events)
   \<and> promise (waits (handle_message (run (endAudio vad_waiting) vad_events) (Some utterance_end) 5) ! 0)
       = Fulfilled (js ''hello'')
   \<and> ws (handle_message (run (endAudio vad_waiting) vad_events) (Some utterance_end) 5) = Some OPEN
   \<and> handle_message vad_waiting (Some utterance_end) 5 = vad_waiting"
proof -
  have t: "msg_type utterance_end = UtteranceEnd" by (simp add: utterance_end_def)
  have n: "\<not> ended vad_waiting"
    by (simp add: vad_waiting_def vad_session_eq new_session_def waitForTranscript_def Let_def)
  have tr: "trim (js ''hello'') = js ''hello''" by (simp add: trim_def is_ws_def js_def)
  have v: "opt_vadEnabled (options vad_waiting) = Some True"
    by (simp add: vad_waiting_def vad_session_eq new_session_def waitForTranscript_def Let_def)
  note u1 = utterance_end_finalizes[of vad_waiting vad_events utterance_end
      "run (endAudio vad_waiting) vad_events" 0 5]
  note u2 = utterance_end_finalizes[of vad_waiting vad_events utterance_end vad_waiting 0 5]
  show ?thesis using u1 u2 t n v by (simp add: vad_run_facts tr)
qed


section \<open>Waiting for the transcript\<close>

lemma wait_outstanding: "outstanding (waitForTranscript s t) (length (waits s))"
  by (simp add: outstanding_def waitForTranscript_def Let_def)

lemma wait_delay:
  "delay (waits (waitForTranscript s t) ! length (waits s)) =
     (case t of None \<Rightarrow> Num 30000 | Some d \<Rightarrow> d)"
  by (simp add: waitForTranscript_def Let_def)

lemma close_fields:
  "waits (close s) = waits s" "ws (close s) = None" "ended (close s)"
  "effects (close s) = effects s @ (if ws s = None then [] else [WsClose])"
  "resolveTranscript (close s) = resolveTranscript s"
  by (simp_all add: close_def Let_def split: option.splits)

lemma timer_fire_outstanding:
  assumes "outstanding s p"
  shows "promise (waits (timer_fire s p) ! p) = Rejected TranscriptTimeout"
    and "timer (waits (timer_fire s p) ! p) = Fired"
    and "ws (timer_fire s p) = None"
    and "ended (timer_fire s p)"
    and "effects (timer_fire s p) = effects s @ (if ws s = None then [] else [WsClose])"
  using assms by (simp_all add: outstanding_def timer_fire_def close_fields reject_promise_def)

lemma timer_fire_after_finish:
  "outstanding s p \<Longrightarrow> timer_fire (finishTranscript s) p = finishTranscript s"
  by (simp add: timer_fire_def finish_outstanding)

lemma wait_keeps_earlier:
  "p < length (waits s) \<Longrightarrow> waits (waitForTranscript s t) ! p = waits s ! p"
  by (simp add: waitForTranscript_def Let_def nth_append)

lemma wait_fields:
  "resolveTranscript (waitForTranscript s t) = Some (length (waits s))"
  "rejectTranscript (waitForTranscript s t) = Some (length (waits s))"
  "length (waits (waitForTranscript s t)) = Suc (length (waits s))"
  "finalTranscript (waitForTranscript s t) = finalTranscript s"
  by (simp_all add: waitForTranscript_def Let_def)

lemma settle_other:
  "q \<noteq> p \<Longrightarrow> resolve_promise q v (clearTimeout q wl) ! p = wl ! p"
  "q \<noteq> p \<Longrightarrow> reject_promise q e wl ! p = wl ! p"
  by (simp_all add: resolve_promise_def clearTimeout_def reject_promise_def)

lemma wait_registered: "registered (waitForTranscript s t) (length (waits s))"
  by (simp add: registered_def outstanding_def waitForTranscript_def Let_def)

lemma registered_step:
  assumes "registered s p"
  shows "registered (step s e) p = (\<not> ends_wait s p e)"
proof (cases e)
  case (Message d now)
  show ?thesis
  proof (cases d)
    case None
    with Message assms show ?thesis
      by (simp add: handle_message_def registered_def outstanding_def)
  next
    case (Some m)
    show ?thesis
    proof (cases "msg_type m = UtteranceEnd \<and> opt_vadEnabled (options s) = Some True \<and> ended s")
      case True
      with Message Some have "step s e = finishTranscript s" by (simp add: handle_message_def)
      moreover have "promise (waits (finishTranscript s) ! p) \<noteq> Pending"
        using assms by (simp add: registered_def finish_outstanding)
      ultimately show ?thesis using True Message Some
        by (simp add: registered_def outstanding_def)
    next
      case False
      with Message Some assms show ?thesis
        by (auto simp: handle_message_def on_results_def registered_def outstanding_def Let_def
            split: option.splits)
    qed
  qed
next
  case (SocketError m)
  with assms show ?thesis
    by (simp add: on_error_def registered_def outstanding_def reject_promise_def)
next
  case SocketClose
  show ?thesis
  proof (cases "ended s")
    case True
    let ?s1 = "case ws s of None \<Rightarrow> s | Some x \<Rightarrow> s\<lparr>ws := Some CLOSED\<rparr>"
    have o: "outstanding ?s1 p" "finalTranscript ?s1 = finalTranscript s"
      using assms by (simp_all add: registered_def outstanding_def split: option.splits)
    have "step s e = finishTranscript ?s1"
      using True SocketClose assms
      by (simp add: on_close_def registered_def outstanding_def Let_def split: option.splits)
    moreover have "promise (waits (finishTranscript ?s1) ! p) \<noteq> Pending"
      using o by (simp add: finish_outstanding)
    ultimately show ?thesis using True SocketClose assms
      by (simp add: registered_def outstanding_def)
  next
    case False
    with SocketClose assms show ?thesis
      by (auto simp: on_close_def registered_def outstanding_def Let_def split: option.splits)
  qed
next
  case (TimerFire q)
  with assms show ?thesis
    by (auto simp: timer_fire_def registered_def outstanding_def close_def reject_promise_def
        Let_def split: option.splits)
next
  case (CallWaitForTranscript t)
  with assms show ?thesis
    by (auto simp: waitForTranscript_def registered_def outstanding_def Let_def)
qed (use assms in \<open>auto simp: registered_def outstanding_def sendAudio_def endAudio_def
      onPartial_def close_def Let_def split: option.splits\<close>)

lemma registered_run:
  "registered s p \<Longrightarrow> quiet s p evs \<Longrightarrow> registered (run s evs) p"
proof (induction evs arbitrary: s)
  case Nil
  then show ?case by (simp add: run_def)
next
  case (Cons e evs)
  then have "registered (step s e) p" by (simp add: registered_step)
  with Cons have "registered (run (step s e) evs) p" by simp
  then show ?case by (simp add: run_def)
qed

lemma finalizes_step:
  assumes "registered s p" "finalizes s e"
  shows "promise (waits (step s e) ! p) = Fulfilled (trim (finalTranscript s))"
    and "timer (waits (step s e) ! p) = Cleared"
    and "timer_fire (step s e) p = step s e"
proof -
  from assms(1) have o: "outstanding s p" by (simp add: registered_def)
  have "\<exists>s1. step s e = finishTranscript s1 \<and> outstanding s1 p
      \<and> finalTranscript s1 = finalTranscript s"
  proof (cases e)
    case (Message d now)
    with assms(2) obtain m where "d = Some m" by (cases d) auto
    with Message assms(2) have "step s e = finishTranscript s" by (simp add: handle_message_def)
    with o show ?thesis by blast
  next
    case SocketClose
    let ?s1 = "case ws s of None \<Rightarrow> s | Some x \<Rightarrow> s\<lparr>ws := Some CLOSED\<rparr>"
    have "outstanding ?s1 p" "finalTranscript ?s1 = finalTranscript s"
      using o by (simp_all add: outstanding_def split: option.splits)
    moreover have "step s e = finishTranscript ?s1"
      using SocketClose assms(2) o
      by (simp add: on_close_def outstanding_def Let_def split: option.splits)
    ultimately show ?thesis by blast
  qed (use assms(2) in auto)
  then obtain s1 where s1: "step s e = finishTranscript s1" "outstanding s1 p"
    "finalTranscript s1 = finalTranscript s" by blast
  show "promise (waits (step s e) ! p) = Fulfilled (trim (finalTranscript s))"
    and "timer (waits (step s e) ! p) = Cleared"
    using s1 by (simp_all add: finish_outstanding)
  show "timer_fire (step s e) p = step s e"
    using s1 by (simp add: timer_fire_after_finish)
qed

lemma error_then_timer:
  assumes "registered s p"
  shows "promise (waits (on_error s m) ! p) = Rejected (WebSocketError m)"
    and "timer (waits (on_error s m) ! p) = Armed"
    and "promise (waits (timer_fire (on_error s m) p) ! p) = Rejected (WebSocketError m)"
    and "ws (timer_fire (on_error s m) p) = None"
    and "ended (timer_fire (on_error s m) p)"
  using assms
  by (simp_all add: registered_def outstanding_def on_error_def timer_fire_def close_fields
      reject_promise_def)

lemma replaced_wait:
  assumes "registered s p"
  shows "promise (waits (waitForTranscript s t) ! p) = Pending"
    and "timer (waits (waitForTranscript s t) ! p) = Armed"
    and "waits (finishTranscript (waitForTranscript s t)) ! p = waits s ! p"
    and "promise (waits (timer_fire (waitForTranscript s t) p) ! p) = Rejected TranscriptTimeout"
proof -
  from assms have p: "p < length (waits s)" "promise (waits s ! p) = Pending"
    "timer (waits s ! p) = Armed"
    by (simp_all add: registered_def outstanding_def)
  then have ne: "length (waits s) \<noteq> p" by simp
  have keep: "waits (waitForTranscript s t) ! p = waits s ! p"
    using p(1) by (rule wait_keeps_earlier)
  show "promise (waits (waitForTranscript s t) ! p) = Pending"
    "timer (waits (waitForTranscript s t) ! p) = Armed"
    using p by (simp_all add: keep)
  show "waits (finishTranscript (waitForTranscript s t)) ! p = waits s ! p"
    using ne by (simp add: finishTranscript_def call_resolveTranscript_def wait_fields
        settle_other keep)
  show "promise (waits (timer_fire (waitForTranscript s t) p) ! p) = Rejected TranscriptTimeout"
    using p by (simp add: timer_fire_def keep wait_fields close_fields reject_promise_def)
qed

text \<open>
  Claim C3 as stated fails, for two kinds of call. A socket error is not a finalization;
  when it comes before the timer of a registered wait, the timer still fires and closes the
  session, but the promise holds the socket error, not the timeout error. And when a second
  call of \<^verbatim>\<open>waitForTranscript\<close> has replaced an outstanding wait, finalization neither
  resolves the first promise nor cancels the first timer.
\<close>

theorem timer_after_socket_error:
  "registered short_wait 0
   \<and> promise (waits (timer_fire (on_error short_wait (js ''boom'')) 0) ! 0)
       = Rejected (WebSocketError (js ''boom''))
   \<and> timer (waits (timer_fire (on_error short_wait (js ''boom'')) 0) ! 0) = Fired
   \<and> ended (timer_fire (on_error short_wait (js ''boom'')) 0)
   \<and> outstanding vad_waiting 0
   \<and> promise (waits (finishTranscript second_wait) ! 0) = Pending
   \<and> timer (waits (finishTranscript second_wait) ! 0) = Armed"
  by (simp add: short_wait_def second_wait_def vad_waiting_def vad_session_eq new_session_def
      waitForTranscript_def registered_def outstanding_def on_error_def timer_fire_def
      close_def reject_promise_def finishTranscript_def call_resolveTranscript_def
      resolve_promise_def clearTimeout_def Let_def)

text \<open>
  Claim C3, amended. \<^verbatim>\<open>waitForTranscript\<close> registers its wait in the session, pending,
  with a timer of the given delay, 30000 ms by default. A registered wait stays registered
  exactly through the events that are not a finalizing event, a socket error, its own timer
  or another call of \<^verbatim>\<open>waitForTranscript\<close>. While the wait is registered: if its timer
  fires, the promise is rejected with the timeout error and the session is force-closed (the
  socket is closed if there is one, the reference is cleared, the session is marked ended);
  if a finalizing event comes first, the promise is fulfilled with the trimmed accumulated
  final text and the timer is cleared, so that it never fires; if a socket error comes
  first, the promise is rejected with the socket error, the timer stays armed, and when it
  fires it force-closes the session and leaves the promise as it is; if another call of
  \<^verbatim>\<open>waitForTranscript\<close> replaces the wait, it stays pending with its timer armed,
  finalization leaves it as it is, and its own timer rejects it with the timeout error.
\<close>

theorem registered_wait_times_out_or_resolves:
  "registered (waitForTranscript s0 t) (length (waits s0))
   \<and> delay (waits (waitForTranscript s0 t) ! length (waits s0))
       = (case t of None \<Rightarrow> Num 30000 | Some d \<Rightarrow> d)
   \<and> (registered s p \<longrightarrow>
        registered (step s e) p = (\<not> ends_wait s p e)
        \<and> (quiet s p evs \<longrightarrow> registered (run s evs) p)
        \<and> promise (waits (timer_fire s p) ! p) = Rejected TranscriptTimeout
        \<and> ws (timer_fire s p) = None
        \<and> ended (timer_fire s p)
        \<and> effects (timer_fire s p) = effects s @ (if ws s = None then [] else [WsClose])
        \<and> (finalizes s e \<longrightarrow>
             promise (waits (step s e) ! p) = Fulfilled (trim (finalTranscript s))
             \<and> timer (waits (step s e) ! p) = Cleared
             \<and> timer_fire (step s e) p = step s e)
        \<and> promise (waits (on_error s m) ! p) = Rejected (WebSocketError m)
        \<and> timer (waits (on_error s m) ! p) = Armed
        \<and> promise (waits (timer_fire (on_error s m) p) ! p) = Rejected (WebSocketError m)
        \<and> ws (timer_fire (on_error s m) p) = None
        \<and> ended (timer_fire (on_error s m) p)
        \<and> promise (waits (waitForTranscript s t') ! p) = Pending
        \<and> timer (waits (waitForTranscript s t') ! p) = Armed
        \<and> waits (finishTranscript (waitForTranscript s t')) ! p = waits s ! p
        \<and> promise (waits (timer_fire (waitForTranscript s t') p) ! p)
            = Rejected TranscriptTimeout)"
proof (intro conjI impI)
  assume r: "registered s p"
  then have o: "outstanding s p" by (simp add: registered_def)
  show "registered (step s e) p = (\<not> ends_wait s p e)" using r by (rule registered_step)
  show "promise (waits (timer_fire s p) ! p) = Rejected TranscriptTimeout"
    "ws (timer_fire s p) = None" "ended (timer_fire s p)"
    "effects (timer_fire s p) = effects s @ (if ws s = None then [] else [WsClose])"
    using o by (simp_all add: timer_fire_outstanding)
  show "promise (waits (on_error s m) ! p) = Rejected (WebSocketError m)"
    "timer (waits (on_error s m) ! p) = Armed"
    "promise (waits (timer_fire (on_error s m) p) ! p) = Rejected (WebSocketError m)"
    "ws (timer_fire (on_error s m) p) = None"
    "ended (timer_fire (on_error s m) p)"
    using r by (simp_all add: error_then_timer)
  show "promise (waits (waitForTranscript s t') ! p) = Pending"
    "timer (waits (waitForTranscript s t') ! p) = Armed"
    "waits (finishTranscript (waitForTranscript s t')) ! p = waits s ! p"
    "promise (waits (timer_fire (waitForTranscript s t') p) ! p) = Rejected TranscriptTimeout"
    using r by (simp_all add: replaced_wait)
  {
    assume "quiet s p evs"
    with r show "registered (run s evs) p" by (rule registered_run)
  }
  {
    assume f: "finalizes s e"
    show "promise (waits (step s e) ! p) = Fulfilled (trim (finalTranscript s))"
      "timer (waits (step s e) ! p) = Cleared"
      "timer_fire (step s e) p = step s e"
      using r f by (simp_all add: finalizes_step)
  }
qed (simp_all add: wait_registered wait_delay)

text \<open>
  \<^verbatim>\<open>waitForTranscript(100)\<close> on the session returned by \<^verbatim>\<open>createSession\<close>, which then
  receives "hello" and ends its audio: the wait is still registered; its timer rejects with
  the timeout error and closes the socket; an UtteranceEnd message instead fulfils it with
  "hello"; a socket error instead rejects it with that error.
\<close>

lemmas eval_defs = short_wait_def vad_session_eq run_def final_result_def
  new_session_def waitForTranscript_def handle_message_def on_results_def endAudio_def
  first_alternative_def alt_text_def trim_def is_ws_def js_def Let_def append_final_def

lemma wait_events_facts:
  "quiet short_wait 0 wait_events"
  "finalTranscript (run short_wait wait_events) = js ''hello''"
  "msg_type utterance_end = UtteranceEnd"
  "opt_vadEnabled (options (run short_wait wait_events)) = Some True"
  "ended (run short_wait wait_events)"
  "effects (run short_wait wait_events) = [vad_connect, WsSend (TextFrame close_stream_frame)]"
  "ws (run short_wait wait_events) = Some OPEN"
  by (simp_all add: wait_events_def utterance_end_def eval_defs)

theorem registered_wait_times_out_or_resolves_witness:
  "registered short_wait 0
   \<and> delay (waits short_wait ! 0) = Num 100
   \<and> quiet short_wait 0 wait_events
   \<and> registered (run short_wait wait_events) 0
   \<and> promise (waits (timer_fire (run short_wait wait_events) 0) ! 0) = Rejected TranscriptTimeout
   \<and> ws (timer_fire (run short_wait wait_events) 0) = None
   \<and> ended (timer_fire (run short_wait wait_events) 0)
   \<and> effects (timer_fire (run short_wait wait_events) 0)
       = [vad_connect, WsSend (TextFrame close_stream_frame), WsClose]
   \<and> finalizes (run short_wait wait_events) (Message (Some utterance_end) 5)
   \<and> promise (waits (step (run short_wait wait_events) (Message (Some utterance_end) 5)) ! 0)
       = Fulfilled (js ''hello'')
   \<and> timer (waits (step (run short_wait wait_events) (Message (Some utterance_end) 5)) ! 0)
       = Cleared
   \<and> promise (waits (on_error (run short_wait wait_events) (js ''boom'')) ! 0)
       = Rejected (WebSocketError (js ''boom''))"
proof -
  have tr: "trim (js ''hello'') = js ''hello''" by (simp add: trim_def is_ws_def js_def)
  have l: "length (waits vad_session) = 0" by (simp add: vad_session_eq new_session_def)
  note w0 = registered_wait_times_out_or_resolves[of vad_session "Some (Num 100)"
      short_wait 0 CallEndAudio wait_events "[]"]
  have r0: "registered short_wait 0" using w0 by (simp add: l short_wait_def[symmetric])
  have r1: "registered (run short_wait wait_events) 0"
    using w0 r0 by (simp add: wait_events_facts)
  note w1 = registered_wait_times_out_or_resolves[of vad_session "Some (Num 100)"
      "run short_wait wait_events" 0 "Message (Some utterance_end) 5" "[]" "js ''boom''"]
  show ?thesis
    using w0 w1 r0 r1 by (simp add: l short_wait_def[symmetric] wait_events_facts tr)
qed


section \<open>Sending audio\<close>

lemma sendAudio_changes: "sendAudio s a \<noteq> Inr s"
proof
  assume h: "sendAudio s a = Inr s"
  then have "s\<lparr>effects := effects s @ [WsSend (Binary a)]\<rparr> = s"
    by (simp add: sendAudio_def split: if_splits)
  then have "effects (s\<lparr>effects := effects s @ [WsSend (Binary a)]\<rparr>) = effects s"
    by (rule arg_cong)
  then show False by simp
qed

text \<open>
  Claim C4. \<^verbatim>\<open>sendAudio\<close> throws when the socket is missing or not open, and throws when
  the session has ended; otherwise it sends the audio bytes as one binary frame and changes
  nothing else. After \<^verbatim>\<open>endAudio\<close>, whatever events follow, \<^verbatim>\<open>sendAudio\<close> throws.
  It never returns normally with the session unchanged.
\<close>

theorem sendAudio_fails_unless_open:
  "(ws s \<noteq> Some OPEN \<longrightarrow> sendAudio s a = Inl NotConnected)
   \<and> (ws s = Some OPEN \<and> ended s \<longrightarrow> sendAudio s a = Inl SessionEnded)
   \<and> (ws s = Some OPEN \<and> \<not> ended s \<longrightarrow>
        sendAudio s a = Inr (s\<lparr>effects := effects s @ [WsSend (Binary a)]\<rparr>))
   \<and> isl (sendAudio (run (endAudio s) evs) a)
   \<and> sendAudio s a \<noteq> Inr s"
proof -
  have "ended (run (endAudio s) evs)" by (rule ended_run) (rule ended_endAudio)
  then have e: "isl (sendAudio (run (endAudio s) evs) a)" by (simp add: sendAudio_def)
  have g: "(ws s \<noteq> Some OPEN \<longrightarrow> sendAudio s a = Inl NotConnected)
   \<and> (ws s = Some OPEN \<and> ended s \<longrightarrow> sendAudio s a = Inl SessionEnded)
   \<and> (ws s = Some OPEN \<and> \<not> ended s \<longrightarrow>
        sendAudio s a = Inr (s\<lparr>effects := effects s @ [WsSend (Binary a)]\<rparr>))"
    by (simp add: sendAudio_def)
  from g e sendAudio_changes[of s a] show ?thesis by blast
qed

text \<open>Not connected, ended, and open: the two errors and the frame sent.\<close>

theorem sendAudio_fails_unless_open_witness:
  "sendAudio (new_session [] [] no_options) [1, 2] = Inl NotConnected
   \<and> sendAudio (endAudio vad_session) [1, 2] = Inl SessionEnded
   \<and> sendAudio vad_session [1, 2]
       = Inr (vad_session\<lparr>effects := [vad_connect, WsSend (Binary [1, 2])]\<rparr>)"
proof -
  have f: "ws (new_session [] [] no_options) \<noteq> Some OPEN" "ws vad_session = Some OPEN"
    "\<not> ended vad_session" "ws (endAudio vad_session) = Some OPEN" "ended (endAudio vad_session)"
    "effects vad_session = [vad_connect]"
    by (simp_all add: new_session_def vad_session_eq endAudio_def Let_def)
  show ?thesis
    using sendAudio_fails_unless_open[of "new_session [] [] no_options" "[1, 2]" "[]"]
      sendAudio_fails_unless_open[of "endAudio vad_session" "[1, 2]" "[]"]
      sendAudio_fails_unless_open[of vad_session "[1, 2]" "[]"] f
    by simp
qed

section \<open>A second wait while one is outstanding\<close>

text \<open>
  Claim C5 as stated fails: on a session whose first wait is outstanding, a second call
  of \<^verbatim>\<open>waitForTranscript\<close> is not rejected. Both promises are pending, the session
  stores the second resolver, and finalization leaves the first promise pending.
\<close>

theorem second_wait_not_rejected:
  "outstanding vad_waiting 0
   \<and> promise (waits second_wait ! 1) = Pending
   \<and> promise (waits second_wait ! 0) = Pending
   \<and> timer (waits second_wait ! 0) = Armed
   \<and> resolveTranscript second_wait = Some 1
   \<and> promise (waits (finishTranscript second_wait) ! 0) = Pending"
  by (simp add: second_wait_def vad_waiting_def vad_session_eq new_session_def
      waitForTranscript_def outstanding_def finishTranscript_def call_resolveTranscript_def
      resolve_promise_def clearTimeout_def Let_def)

text \<open>
  Claim C5, amended. A call of \<^verbatim>\<open>waitForTranscript\<close> while a wait is outstanding is
  accepted: it registers a new outstanding wait and replaces the stored resolve and reject
  functions. The earlier wait stays pending with its timer armed but is no longer the one
  the session settles: finalization fulfils the new wait and a socket error rejects the new
  wait, and both leave the earlier wait as it was. The earlier wait is settled by its own
  timer, which rejects it with the timeout error and force-closes the session.
\<close>

theorem second_wait_replaces_first:
  assumes "outstanding s p"
  shows "outstanding (waitForTranscript s t) (length (waits s))
    \<and> length (waits s) \<noteq> p
    \<and> \<not> outstanding (waitForTranscript s t) p
    \<and> promise (waits (waitForTranscript s t) ! p) = Pending
    \<and> timer (waits (waitForTranscript s t) ! p) = Armed
    \<and> promise (waits (finishTranscript (waitForTranscript s t)) ! length (waits s))
        = Fulfilled (trim (finalTranscript s))
    \<and> waits (finishTranscript (waitForTranscript s t)) ! p = waits s ! p
    \<and> promise (waits (on_error (waitForTranscript s t) m) ! length (waits s))
        = Rejected (WebSocketError m)
    \<and> waits (on_error (waitForTranscript s t) m) ! p = waits s ! p
    \<and> promise (waits (timer_fire (waitForTranscript s t) p) ! p) = Rejected TranscriptTimeout
    \<and> ws (timer_fire (waitForTranscript s t) p) = None
    \<and> ended (timer_fire (waitForTranscript s t) p)"
proof -
  let ?s2 = "waitForTranscript s t"
  let ?q = "length (waits s)"
  from assms have p: "p < ?q" "promise (waits s ! p) = Pending" "timer (waits s ! p) = Armed"
    by (simp_all add: outstanding_def)
  then have ne: "?q \<noteq> p" by simp
  have o: "outstanding ?s2 ?q" by (rule wait_outstanding)
  have keep: "waits ?s2 ! p = waits s ! p" using p(1) by (rule wait_keeps_earlier)
  have no: "\<not> outstanding ?s2 p" using ne by (auto simp: outstanding_def wait_fields)
  have fq: "promise (waits (finishTranscript ?s2) ! ?q) = Fulfilled (trim (finalTranscript s))"
    using finish_outstanding[OF o] by (simp add: wait_fields)
  have fp: "waits (finishTranscript ?s2) ! p = waits s ! p"
    using ne by (simp add: finishTranscript_def call_resolveTranscript_def wait_fields
        settle_other keep)
  have eq: "promise (waits (on_error ?s2 m) ! ?q) = Rejected (WebSocketError m)"
    using o by (simp add: on_error_def wait_fields reject_promise_def outstanding_def)
  have ep: "waits (on_error ?s2 m) ! p = waits s ! p"
    using ne by (simp add: on_error_def wait_fields settle_other keep)
  have tf: "promise (waits (timer_fire ?s2 p) ! p) = Rejected TranscriptTimeout"
    "ws (timer_fire ?s2 p) = None" "ended (timer_fire ?s2 p)"
    using p by (simp_all add: timer_fire_def keep wait_fields close_fields reject_promise_def)
  show ?thesis using ne o no keep p fq fp eq ep tf by simp
qed

text \<open>Two waits on a connected session.\<close>

theorem second_wait_replaces_first_witness:
  "outstanding vad_waiting 0
   \<and> outstanding second_wait 1
   \<and> promise (waits (finishTranscript second_wait) ! 1) = Fulfilled []
   \<and> promise (waits (finishTranscript second_wait) ! 0) = Pending
   \<and> promise (waits (timer_fire second_wait 0) ! 0) = Rejected TranscriptTimeout
   \<and> ws (timer_fire second_wait 0) = None"
proof -
  have o: "outstanding vad_waiting 0"
    by (simp add: vad_waiting_def vad_session_eq new_session_def waitForTranscript_def
        outstanding_def Let_def)
  have f: "length (waits vad_waiting) = 1" "finalTranscript vad_waiting = []"
    "promise (waits vad_waiting ! 0) = Pending"
    by (simp_all add: vad_waiting_def vad_session_eq new_session_def waitForTranscript_def
        Let_def)
  have tr: "trim [] = []" by (simp add: trim_def)
  show ?thesis
    using second_wait_replaces_first[OF o, of None "[]"] o
    by (simp add: second_wait_def[symmetric] f tr)
qed



section \<open>Batch transcription: a response without a transcript\<close>

lemma transcribe_never_empty: "transcribe P audio opts outcome \<noteq> Inr []"
  by (auto simp: transcribe_def split: fetch_outcome.splits option.splits)

text \<open>
  Claim C6. When the response has a success status and its payload parses, but the top
  alternative is absent, or its transcript is absent, or the transcript is empty after
  trimming, \<^verbatim>\<open>transcribe\<close> rejects with the missing-transcript error. With a
  non-empty trimmed transcript it resolves with that trimmed transcript. Whatever the
  outcome of the request, it never resolves with the empty string.
\<close>

theorem missing_transcript_rejected:
  "(response_ok res \<and> body_json res = Some payload
      \<and> (top_alternative payload = None
          \<or> (\<exists>a. top_alternative payload = Some a
                \<and> (transcript a = None \<or> (\<exists>t. transcript a = Some t \<and> trim t = []))))
      \<longrightarrow> transcribe P audio opts (Responds res) = Inl MissingTranscript)
   \<and> (response_ok res \<and> body_json res = Some payload \<and> top_alternative payload = Some a
        \<and> transcript a = Some t \<and> trim t \<noteq> []
      \<longrightarrow> transcribe P audio opts (Responds res) = Inr (trim t))
   \<and> transcribe P audio opts outcome \<noteq> Inr []"
proof (intro conjI impI)
  show "transcribe P audio opts outcome \<noteq> Inr []" by (rule transcribe_never_empty)
qed (auto simp: transcribe_def top_transcript_def)

text \<open>
  HTTP 200 with no transcript, with a blank transcript and with no results at all; and
  HTTP 200 with " hello world ".
\<close>

lemma payload_with_top:
  "top_alternative (payload_with t) = Some \<lparr>transcript = t, confidence = None\<rparr>"
  by (simp add: payload_with_def top_alternative_def first_channel_def)

theorem missing_transcript_rejected_witness:
  "response_ok (ok_response (payload_with None))
   \<and> transcribe test_provider [0] None (Responds (ok_response (payload_with None)))
       = Inl MissingTranscript
   \<and> transcribe test_provider [0] None (Responds (ok_response (payload_with (Some (js ''  '')))))
       = Inl MissingTranscript
   \<and> transcribe test_provider [0] None
        (Responds (ok_response \<lparr>results = None\<rparr>)) = Inl MissingTranscript
   \<and> transcribe test_provider [0] None
        (Responds (ok_response (payload_with (Some (js '' hello world ''))))) = Inr (js ''hello world'')"
proof -
  have ok: "response_ok (ok_response p)" for p
    by (simp add: response_ok_def ok_response_def)
  have bj: "body_json (ok_response p) = Some p" for p
    by (simp add: ok_response_def)
  have e: "trim (js ''  '') = []" by (simp add: trim_def is_ws_def js_def)
  have h: "trim (js '' hello world '') = js ''hello world''"
    by (simp add: trim_def is_ws_def js_def)
  have ne: "js ''hello world'' \<noteq> []" by (simp add: js_def)
  have n: "top_alternative \<lparr>results = None\<rparr> = None"
    by (simp add: top_alternative_def first_channel_def)
  note m = missing_transcript_rejected[where P = test_provider and audio = "[0]" and opts = None]
  show ?thesis
    using m[of "ok_response (payload_with None)" "payload_with None"]
      m[of "ok_response (payload_with (Some (js ''  '')))" "payload_with (Some (js ''  ''))"]
      m[of "ok_response \<lparr>results = None\<rparr>" "\<lparr>results = None\<rparr>"]
      m[of "ok_response (payload_with (Some (js '' hello world '')))"
          "payload_with (Some (js '' hello world ''))"
          "\<lparr>transcript = Some (js '' hello world ''), confidence = None\<rparr>" "js '' hello world ''"]
    by (simp add: ok bj e h n ne payload_with_top)
qed


section \<open>Batch transcription: a failure status\<close>

text \<open>
  What the code does on a failure status: it rejects with the transcription-failed error,
  whose message is the fixed head with the status in decimal digits (they read back as the
  status), followed, when the body is readable and not blank, by a colon, a space and the
  snippet.
\<close>

lemma readErrorResponse_shape:
  "readErrorResponse res =
     (case body_text res of
        None \<Rightarrow> None
      | Some body \<Rightarrow>
          if trim (collapse_ws body) = [] then None
          else if length (trim (collapse_ws body)) \<le> 300 then Some (trim (collapse_ws body))
          else Some (take 300 (trim (collapse_ws body)) @ [0x201A, 0x00C4, 0x00B6]))"
  by (simp add: readErrorResponse_def truncation_marker_def Let_def split: option.splits)

lemma failure_message_cases:
  "failure_message st None = failure_head st"
  "failure_message st (Some d) = failure_head st @ js '': '' @ d"
  by (simp_all add: failure_message_def failure_head_def)

lemma failure_status_rejects:
  "\<not> response_ok res \<Longrightarrow>
     transcribe P audio opts (Responds res)
       = Inl (TranscriptionFailed (failure_message (status res) (readErrorResponse res)))"
  by (simp add: transcribe_def)

lemma digit_unat: "d < 10 \<Longrightarrow> unat (48 + word_of_nat d :: 16 word) = 48 + d"
proof -
  assume d: "d < 10"
  have "unat (word_of_nat (48 + d) :: 16 word) = (48 + d) mod 2 ^ LENGTH(16)"
    by (rule unat_of_nat)
  also have "\<dots> = 48 + d" using d by simp
  finally show ?thesis by simp
qed

lemma parse_show_nat: "parse_decimal (show_nat n) = n"
proof (induction n rule: show_nat.induct)
  case (1 n)
  show ?case
  proof (cases "n < 10")
    case True
    then show ?thesis
      by (subst show_nat.simps) (simp add: parse_decimal_def digit_unat)
  next
    case False
    then have ih: "parse_decimal (show_nat (n div 10)) = n div 10" using 1 by simp
    have d: "unat (48 + word_of_nat (n mod 10) :: 16 word) = 48 + n mod 10"
      by (rule digit_unat) simp
    have "parse_decimal (show_nat n) = 10 * parse_decimal (show_nat (n div 10)) + n mod 10"
      using False by (subst show_nat.simps) (simp add: parse_decimal_def d)
    with ih show ?thesis by simp
  qed
qed

lemma collapse_no_ws: "list_all (\<lambda>c. \<not> is_ws c) xs \<Longrightarrow> collapse_ws xs = xs"
  by (induction xs) simp_all

lemma show_nat_401: "show_nat 401 = js ''401''"
  by (simp add: show_nat.simps js_def)

lemma show_nat_500: "show_nat 500 = js ''500''"
  by (simp add: show_nat.simps js_def)

lemma unauthorized_detail: "readErrorResponse unauthorized = Some (js ''Invalid credentials.'')"
  by (simp add: readErrorResponse_def unauthorized_def trim_def is_ws_def js_def Let_def)

lemma long_failure_detail:
  "readErrorResponse long_failure = Some (replicate 300 0x0061 @ [0x201A, 0x00C4, 0x00B6])"
proof -
  have a: "\<not> is_ws 0x0061" by (simp add: is_ws_def)
  then have c: "collapse_ws (replicate 305 0x0061) = replicate 305 0x0061"
    by (intro collapse_no_ws) (simp add: list_all_iff)
  have "clean (replicate 305 0x0061)"
    using a by (simp add: clean_def hd_replicate last_replicate)
  then have t: "trim (replicate 305 0x0061) = replicate 305 0x0061" by (rule clean_trim)
  show ?thesis
    by (simp add: readErrorResponse_def long_failure_def truncation_marker_def c t Let_def)
qed

text \<open>
  Claim C7 fails on the code when the body is truncated. For HTTP 500 with a body of 305
  letters the message holds the status and the first 300 code units of the body, but what
  follows them is the three code units U+201A, U+00C4, U+00B6 of line 119, not an ellipsis
  marker: the snippet is 303 code units long and holds no U+2026. A body of at most 300
  code units (HTTP 401 here) comes through whole, as the claim says.
\<close>

theorem truncated_snippet_has_no_ellipsis:
  "transcribe test_provider [0] None (Responds long_failure)
     = Inl (TranscriptionFailed
         (js ''Deepgram transcription failed (HTTP 500): '' @ replicate 300 0x0061
            @ [0x201A, 0x00C4, 0x00B6]))
   \<and> transcribe test_provider [0] None (Responds unauthorized)
     = Inl (TranscriptionFailed
         (js ''Deepgram transcription failed (HTTP 401): Invalid credentials.''))"
proof -
  have n: "\<not> response_ok unauthorized" "\<not> response_ok long_failure"
    by (simp_all add: response_ok_def unauthorized_def long_failure_def)
  have s: "status unauthorized = 401" "status long_failure = 500"
    by (simp_all add: unauthorized_def long_failure_def)
  show ?thesis
    using n
    by (simp add: failure_status_rejects s unauthorized_detail long_failure_detail
        failure_message_cases failure_head_def show_nat_401 show_nat_500 js_def)
qed


section \<open>Validating the configuration\<close>

text \<open>
  On every timeout that is not NaN, validation accepts exactly the five models and the
  numbers from 1000 to 300000.
\<close>

lemma validateConfig_on_numbers:
  assumes "cfg_apiKey P \<noteq> []" "cfg_timeoutMs P \<noteq> NaN"
  shows "(validateConfig P = Inr ()) =
     (cfg_model P \<in> set validModels
      \<and> (\<exists>t. cfg_timeoutMs P = Num t \<and> 1000 \<le> t \<and> t \<le> 300000))"
  using assms
  by (cases "cfg_timeoutMs P") (auto simp: validateConfig_def js_gt_def)

text \<open>
  Claim C8 fails on the code at a timeout of NaN: both comparisons of line 345 are false
  for NaN, so \<^verbatim>\<open>validateConfig\<close> does not throw and \<^verbatim>\<open>init\<close> registers a provider
  whose timeout is NaN, which is outside the range 1000 to 300000.
\<close>

theorem validateConfig_accepts_NaN:
  "new_provider nan_config None
     = Inr \<lparr>cfg_apiKey = js ''key'', cfg_baseUrl = js ''https://api.deepgram.com/v1'',
           cfg_model = js ''nova-3'', cfg_language = js ''en'', cfg_wordTimestamps = False,
           cfg_timeoutMs = NaN, baseUrl = js ''https://api.deepgram.com/v1''\<rparr>
   \<and> validateConfig
        \<lparr>cfg_apiKey = js ''key'', cfg_baseUrl = js ''https://api.deepgram.com/v1'',
         cfg_model = js ''nova-3'', cfg_language = js ''en'', cfg_wordTimestamps = False,
         cfg_timeoutMs = NaN, baseUrl = js ''https://api.deepgram.com/v1''\<rparr> = Inr ()
   \<and> \<not> isl (init nan_config None)"
  by (simp add: new_provider_def nan_config_def truthy_def normalizeBaseUrl_def truthy_trim_def
      trim_def is_ws_def DEFAULT_baseUrl_def DEFAULT_model_def DEFAULT_language_def
      DEFAULT_wordTimestamps_def validateConfig_def validModels_def
      js_gt_def init_def js_def Let_def)



section \<open>Caller options against provider defaults\<close>

lemmas config_defs = new_provider_def truthy_def normalizeBaseUrl_def truthy_trim_def
  DEFAULT_baseUrl_def DEFAULT_model_def DEFAULT_language_def DEFAULT_wordTimestamps_def
  DEFAULT_timeoutMs_def

lemma transcribe_wordTimestamps_or:
  "transcribe_wordTimestamps P (Some opts) =
     (opt_wordTimestamps opts = Some True \<or> cfg_wordTimestamps P)"
  by (simp add: transcribe_wordTimestamps_def)

lemma session_options_caller_wins:
  "opt_wordTimestamps opts = Some w \<Longrightarrow>
     opt_wordTimestamps (session_options P (Some opts)) = Some w"
  "opt_language opts = Some l \<Longrightarrow> opt_language (session_options P (Some opts)) = Some l"
  by (simp_all add: session_options_def)

lemma transcribe_language_caller_wins:
  "opt_language opts = Some l \<Longrightarrow> l \<noteq> [] \<Longrightarrow> transcribe_language P (Some opts) = l"
  by (simp add: transcribe_language_def truthy_def)

text \<open>
  Claim C9 fails on the code in \<^verbatim>\<open>transcribe\<close>: with word timestamps enabled in the
  provider and \<^verbatim>\<open>wordTimestamps: false\<close> given by the caller, the batch request still
  carries \<^verbatim>\<open>utterances=true\<close>, because line 374 joins the two flags with \<^verbatim>\<open>||\<close>.
  \<^verbatim>\<open>createSession\<close> with the same provider and options does honour the caller: the
  streaming request carries no \<^verbatim>\<open>utterance_end_ms\<close>.
\<close>

theorem transcribe_keeps_default_timestamps:
  "new_provider ts_config None
     = Inr \<lparr>cfg_apiKey = js ''key'', cfg_baseUrl = js ''https://api.deepgram.com/v1'',
           cfg_model = js ''nova-3'', cfg_language = js ''en'', cfg_wordTimestamps = True,
           cfg_timeoutMs = Num 30000, baseUrl = js ''https://api.deepgram.com/v1''\<rparr>
   \<and> searchParams (transcribe_url
        \<lparr>cfg_apiKey = js ''key'', cfg_baseUrl = js ''https://api.deepgram.com/v1'',
         cfg_model = js ''nova-3'', cfg_language = js ''en'', cfg_wordTimestamps = True,
         cfg_timeoutMs = Num 30000, baseUrl = js ''https://api.deepgram.com/v1''\<rparr>
        (Some no_timestamps))
       = [(js ''model'', js ''nova-3''), (js ''language'', js ''en''),
          (js ''punctuate'', js ''true''), (js ''smart_format'', js ''true''),
          (js ''utterances'', js ''true'')]
   \<and> searchParams (connect_url (new_session (js ''key'') (js ''nova-3'')
        (session_options
          \<lparr>cfg_apiKey = js ''key'', cfg_baseUrl = js ''https://api.deepgram.com/v1'',
           cfg_model = js ''nova-3'', cfg_language = js ''en'', cfg_wordTimestamps = True,
           cfg_timeoutMs = Num 30000, baseUrl = js ''https://api.deepgram.com/v1''\<rparr>
          (Some no_timestamps))))
       = [(js ''model'', js ''nova-3''), (js ''language'', js ''en''),
          (js ''interim_results'', js ''true''), (js ''punctuate'', js ''true''),
          (js ''smart_format'', js ''true'')]"
  by (simp add: config_defs ts_config_def no_timestamps_def transcribe_url_def
      transcribe_language_def transcribe_wordTimestamps_def connect_url_def new_session_def
      session_options_def url_set_def new_URL_def trim_def is_ws_def js_def Let_def)


section \<open>The streaming endpoint\<close>

lemma url_base_url_set [simp]: "url_base (url_set k v u) = url_base u"
  by (simp add: url_set_def)

lemma connect_url_base: "url_base (connect_url s) = js ''wss://api.deepgram.com/v1/listen''"
  by (simp add: connect_url_def new_URL_def Let_def split: option.splits)

lemma transcribe_url_base: "url_base (transcribe_url P opts) = baseUrl P @ js ''/listen''"
  by (simp add: transcribe_url_def new_URL_def Let_def split: option.splits)

lemma new_provider_baseUrl:
  assumes "new_provider cfg env = Inr P" "new_provider (cfg\<lparr>c_baseUrl := b\<rparr>) env = Inr P'"
  shows "P' = P\<lparr>cfg_baseUrl := (case b of None \<Rightarrow> DEFAULT_baseUrl | Some x \<Rightarrow> x),
                 baseUrl := normalizeBaseUrl
                   (Some (case b of None \<Rightarrow> DEFAULT_baseUrl | Some x \<Rightarrow> x)) DEFAULT_baseUrl\<rparr>"
  using assms by (auto simp: new_provider_def Let_def split: if_splits)

text \<open>
  Claim C10. Take a configuration and the same configuration with any other base URL (or
  none). The session that \<^verbatim>\<open>createSession\<close> builds connects to
  \<^verbatim>\<open>wss://api.deepgram.com/v1/listen\<close> in both cases, and the whole result of
  \<^verbatim>\<open>createSession\<close>, with the connection request it makes, is the same for both
  providers. The base URL does reach the batch and the health-check requests: their URL is
  the normalized base URL followed by \<^verbatim>\<open>/listen\<close>.
\<close>

theorem streaming_endpoint_ignores_baseUrl:
  assumes "new_provider cfg env = Inr P" "new_provider (cfg\<lparr>c_baseUrl := b\<rparr>) env = Inr P'"
  shows "url_base (connect_url (new_session (cfg_apiKey P') (cfg_model P')
            (session_options P' opts))) = js ''wss://api.deepgram.com/v1/listen''
    \<and> createSession P' opts h = createSession P opts h
    \<and> (\<exists>s. createSession P' opts Opened = Inr s
          \<and> (\<exists>u. effects s = [WsConnect u (js ''Token '' @ cfg_apiKey P)]
                \<and> url_base u = js ''wss://api.deepgram.com/v1/listen''))
    \<and> url_base (transcribe_url P' topts)
        = normalizeBaseUrl (Some (case b of None \<Rightarrow> DEFAULT_baseUrl | Some x \<Rightarrow> x))
            DEFAULT_baseUrl @ js ''/listen''
    \<and> url_base (req_url (healthCheck_request P'))
        = normalizeBaseUrl (Some (case b of None \<Rightarrow> DEFAULT_baseUrl | Some x \<Rightarrow> x))
            DEFAULT_baseUrl @ js ''/listen''"
proof -
  note eq = new_provider_baseUrl[OF assms]
  have so: "session_options P' opts = session_options P opts"
    by (simp add: eq session_options_def split: option.splits)
  have k: "cfg_apiKey P' = cfg_apiKey P" "cfg_model P' = cfg_model P" by (simp_all add: eq)
  have cs: "createSession P' opts h = createSession P opts h" for h
    by (simp add: createSession_def so k)
  have ex: "\<exists>s. createSession P' opts Opened = Inr s
          \<and> (\<exists>u. effects s = [WsConnect u (js ''Token '' @ cfg_apiKey P)]
                \<and> url_base u = js ''wss://api.deepgram.com/v1/listen'')"
    by (simp add: createSession_def connect_def new_session_def k connect_url_base Let_def)
  have b: "baseUrl P' = normalizeBaseUrl
      (Some (case b of None \<Rightarrow> DEFAULT_baseUrl | Some x \<Rightarrow> x)) DEFAULT_baseUrl"
    by (simp add: eq)
  have hc: "url_base (req_url (healthCheck_request P')) = baseUrl P' @ js ''/listen''"
    by (simp add: healthCheck_request_def new_URL_def)
  show ?thesis
    using cs ex by (simp add: connect_url_base transcribe_url_base hc b)
qed

text \<open>
  The default configuration against one with the base URL
  \<^verbatim>\<open> https://example.test/v2// \<close>.
\<close>

theorem streaming_endpoint_ignores_baseUrl_witness:
  "new_provider plain_config None = Inr test_provider
   \<and> new_provider (plain_config\<lparr>c_baseUrl := Some (js '' https://example.test/v2// '')\<rparr>) None
       = Inr custom_provider
   \<and> createSession custom_provider None Opened = createSession test_provider None Opened
   \<and> url_base (connect_url (new_session (cfg_apiKey custom_provider) (cfg_model custom_provider)
        (session_options custom_provider None))) = js ''wss://api.deepgram.com/v1/listen''
   \<and> url_base (transcribe_url custom_provider None) = js ''https://example.test/v2/listen''
   \<and> url_base (transcribe_url test_provider None) = js ''https://api.deepgram.com/v1/listen''"
proof -
  have a: "new_provider plain_config None = Inr test_provider"
    by (simp add: config_defs plain_config_def test_provider_def trim_def is_ws_def js_def
        Let_def)
  have b: "new_provider (plain_config\<lparr>c_baseUrl := Some (js '' https://example.test/v2// '')\<rparr>)
      None = Inr custom_provider"
    by (simp add: config_defs plain_config_def custom_provider_def trim_def is_ws_def js_def
        Let_def)
  have n: "normalizeBaseUrl (Some (js '' https://example.test/v2// '')) DEFAULT_baseUrl
      = js ''https://example.test/v2''"
    by (simp add: config_defs trim_def is_ws_def js_def Let_def)
  have n2: "js ''https://example.test/v2'' @ js ''/listen'' = js ''https://example.test/v2/listen''"
    by (simp add: js_def)
  have t: "url_base (transcribe_url test_provider None) = js ''https://api.deepgram.com/v1/listen''"
    by (simp add: transcribe_url_base test_provider_def js_def)
  show ?thesis
    using streaming_endpoint_ignores_baseUrl[OF a b, of None Opened None] a b t
    by (simp add: n n2)
qed


end
